theory Spec2Isabelle
  imports Main "HOL-Library.Word"
begin

section \<open>Common definitions\<close>

text \<open>
  Frame ids index the array \<open>pages\<close> and are modelled as natural numbers; page ids
  are signed (\<open>page_id_t\<close>) and modelled as integers.  An assertion that fails, a
  read through an invalid pointer or index, an exception and a latch that can never be
  acquired by the single running thread are outcomes of their own.
\<close>

datatype error = AssertionFailure | UndefinedBehaviour | OutOfRangeException | Deadlock

section \<open>LRU replacer (src/buffer/lru\_replacer.cpp)\<close>

text \<open>
  \<open>unpin_list_\<close> is a \<open>std::list\<close>; its front is the head of the HOL list.
  \<open>unpin_map_\<close> maps every frame of the list to its list position, so membership in
  the map is membership in the list.
\<close>

record LRUReplacer =
  max_num_pages :: nat
  unpin_list :: "nat list"

definition new_LRUReplacer :: "nat \<Rightarrow> LRUReplacer" where
  "new_LRUReplacer num_pages = \<lparr>max_num_pages = num_pages, unpin_list = []\<rparr>"

definition Victim :: "LRUReplacer \<Rightarrow> nat option \<times> LRUReplacer" where
  "Victim r =
     (if unpin_list r = [] then (None, r)
      else (Some (last (unpin_list r)), r\<lparr>unpin_list := butlast (unpin_list r)\<rparr>))"

definition Pin :: "nat \<Rightarrow> LRUReplacer \<Rightarrow> LRUReplacer" where
  "Pin frame_id r =
     (if frame_id \<notin> set (unpin_list r) then r
      else r\<lparr>unpin_list := remove1 frame_id (unpin_list r)\<rparr>)"

definition Unpin :: "nat \<Rightarrow> LRUReplacer \<Rightarrow> error + LRUReplacer" where
  "Unpin frame_id r =
     (if frame_id \<notin> set (unpin_list r) then
        (if length (unpin_list r) < max_num_pages r
         then Inr (r\<lparr>unpin_list := frame_id # unpin_list r\<rparr>)
         else Inl AssertionFailure)
      else Inr r)"

definition Size :: "LRUReplacer \<Rightarrow> nat" where
  "Size r = length (unpin_list r)"

text \<open>Running a list of replacer calls, for the scenarios of the specification.\<close>

datatype replacer_call = CallUnpin nat | CallPin nat

fun replacer_run :: "replacer_call list \<Rightarrow> LRUReplacer \<Rightarrow> error + LRUReplacer" where
  "replacer_run [] r = Inr r"
| "replacer_run (CallUnpin f # cs) r =
     (case Unpin f r of Inl e \<Rightarrow> Inl e | Inr r' \<Rightarrow> replacer_run cs r')"
| "replacer_run (CallPin f # cs) r = replacer_run cs (Pin f r)"

fun victims :: "nat \<Rightarrow> LRUReplacer \<Rightarrow> nat option list" where
  "victims 0 r = []"
| "victims (Suc n) r = (case Victim r of (v, r') \<Rightarrow> v # victims n r')"

definition scenario_S1 :: "replacer_call list" where
  "scenario_S1 =
     [CallUnpin 1, CallUnpin 2, CallUnpin 3, CallUnpin 4, CallUnpin 5, CallUnpin 6,
      CallPin 1, CallPin 4, CallUnpin 1, CallUnpin 4]"

section \<open>Pages, the disk manager and the buffer pool (src/buffer/buffer\_pool\_manager.cpp)\<close>

text \<open>
  Modelled from the spec: the class \<open>Page\<close> (a frame) is declared outside the files at
  hand.  A frame carries its data, \<open>page_id_\<close>, \<open>pin_count_\<close>, \<open>is_dirty_\<close> and a
  reader/writer latch.  The data is kept polymorphic: \<open>ResetMemory\<close> zeroes it, so its
  type has a zero.  The type \<open>page_bytes\<close> below is the raw instance, 4096 bytes; the
  B+ tree reads the same data through a typed view (further down).
\<close>

definition PAGE_SIZE :: nat where
  "PAGE_SIZE = 4096"

definition INVALID_PAGE_ID :: int where
  "INVALID_PAGE_ID = - 1"

typedef page_bytes = "{bs :: 8 word list. length bs = PAGE_SIZE}"
  by (rule exI [of _ "replicate PAGE_SIZE 0"]) simp

setup_lifting type_definition_page_bytes

instantiation page_bytes :: zero
begin
lift_definition zero_page_bytes :: page_bytes is "replicate PAGE_SIZE 0"
  by simp
instance ..
end

record rwlatch =
  readers :: nat
  writer :: bool

record 'd Page =
  data :: 'd
  page_id :: int
  pin_count :: int
  is_dirty :: bool
  latch :: rwlatch

definition new_Page :: "('d::zero) Page" where
  "new_Page = \<lparr>data = 0, page_id = INVALID_PAGE_ID, pin_count = 0, is_dirty = False,
               latch = \<lparr>readers = 0, writer = False\<rparr>\<rparr>"

definition ResetMemory :: "('d::zero) Page \<Rightarrow> 'd Page" where
  "ResetMemory pg = pg\<lparr>data := 0\<rparr>"

text \<open>
  Modelled from the spec: the disk manager (section 6 of the specification).
  \<open>ReadPage\<close> returns what was last written to the page id (or the initial contents),
  \<open>WritePage\<close> stores the buffer; every write is also appended to a log, so that a
  theorem can say that a write was performed.
\<close>

record 'd DiskManager =
  disk_contents :: "int \<Rightarrow> 'd"
  disk_writes :: "(int \<times> 'd) list"

definition ReadPage :: "int \<Rightarrow> 'd DiskManager \<Rightarrow> 'd" where
  "ReadPage pid dm = disk_contents dm pid"

definition WritePage :: "int \<Rightarrow> 'd \<Rightarrow> 'd DiskManager \<Rightarrow> 'd DiskManager" where
  "WritePage pid buf dm =
     dm\<lparr>disk_contents := (disk_contents dm)(pid := buf),
        disk_writes := disk_writes dm @ [(pid, buf)]\<rparr>"

text \<open>
  The buffer pool.  \<open>pool_size_\<close> is the length of \<open>pages_\<close>.  \<open>deallocated\<close>
  records the calls of \<open>DeallocatePage\<close> (modelled from the spec: the function is
  declared outside the files at hand and only notes the id as reusable).
  \<open>next_page_id_\<close> is advanced by each allocation; its initial value is a parameter
  of the constructor.
\<close>

record 'd BufferPoolManager =
  pages :: "'d Page list"
  page_table :: "int \<rightharpoonup> nat"
  free_list :: "nat list"
  replacer :: LRUReplacer
  disk_manager :: "'d DiskManager"
  next_page_id :: int
  deallocated :: "int list"

definition pool_size :: "'d BufferPoolManager \<Rightarrow> nat" where
  "pool_size s = length (pages s)"

definition new_BufferPoolManager ::
    "nat \<Rightarrow> ('d::zero) DiskManager \<Rightarrow> int \<Rightarrow> 'd BufferPoolManager" where
  "new_BufferPoolManager n dm first_page_id =
     \<lparr>pages = replicate n new_Page, page_table = Map.empty, free_list = [0..<n],
      replacer = new_LRUReplacer n, disk_manager = dm, next_page_id = first_page_id,
      deallocated = []\<rparr>"

text \<open>
  \<open>AllocatePage\<close> returns \<open>next_page_id_++\<close>.  A page id is a 32-bit signed integer: the
  increment of the largest id wraps around to the smallest.
\<close>

definition INT32_MAX :: int where
  "INT32_MAX = 2147483647"

definition INT32_MIN :: int where
  "INT32_MIN = - 2147483648"

definition AllocatePage :: "'d BufferPoolManager \<Rightarrow> int \<times> 'd BufferPoolManager" where
  "AllocatePage s =
     (next_page_id s,
      s\<lparr>next_page_id := (if next_page_id s = INT32_MAX then INT32_MIN else next_page_id s + 1)\<rparr>)"

definition DeallocatePage :: "int \<Rightarrow> 'd BufferPoolManager \<Rightarrow> 'd BufferPoolManager" where
  "DeallocatePage pid s = s\<lparr>deallocated := deallocated s @ [pid]\<rparr>"

text \<open>
  \<open>InitNewPage\<close>: the frame comes from the front of the free list, or else from the
  replacer; a victim's page-table entry is erased and its data written back when dirty.
  \<open>Victim\<close> returning false would leave \<open>frame_id\<close> uninitialised.
\<close>

definition InitNewPage ::
    "int \<Rightarrow> ('d::zero) BufferPoolManager \<Rightarrow> error + (nat \<times> 'd BufferPoolManager)" where
  "InitNewPage pid s =
     (case (if free_list s \<noteq> []
            then Inr (hd (free_list s), s\<lparr>free_list := tl (free_list s)\<rparr>)
            else (case Victim (replacer s) of
                    (None, r) \<Rightarrow> Inl UndefinedBehaviour
                  | (Some f, r) \<Rightarrow>
                      if f < length (pages s) then
                        let pg = pages s ! f;
                            s1 = s\<lparr>replacer := r,
                                   page_table := (page_table s)(page_id pg := None)\<rparr>
                        in Inr (f, if is_dirty pg
                                   then s1\<lparr>disk_manager :=
                                             WritePage (page_id pg) (data pg) (disk_manager s1)\<rparr>
                                   else s1)
                      else Inl UndefinedBehaviour)) of
        Inl e \<Rightarrow> Inl e
      | Inr (frame_id, s2) \<Rightarrow>
          if frame_id < length (pages s2) then
            Inr (frame_id,
                 s2\<lparr>pages := (pages s2)[frame_id :=
                        (ResetMemory (pages s2 ! frame_id))
                           \<lparr>is_dirty := False, page_id := pid, pin_count := 1\<rparr>],
                    page_table := (page_table s2)(pid \<mapsto> frame_id)\<rparr>)
          else Inl UndefinedBehaviour)"

text \<open>A \<open>Page *\<close> is the index of its frame; \<open>nullptr\<close> is \<open>None\<close>.\<close>

definition FetchPageImpl ::
    "int \<Rightarrow> ('d::zero) BufferPoolManager \<Rightarrow> error + (nat option \<times> 'd BufferPoolManager)" where
  "FetchPageImpl pid s =
     (case page_table s pid of
        Some f \<Rightarrow>
          if f < length (pages s) then
            let pg = pages s ! f;
                r = (if pin_count pg = 0 then Pin f (replacer s) else replacer s)
            in Inr (Some f, s\<lparr>replacer := r,
                              pages := (pages s)[f := pg\<lparr>pin_count := pin_count pg + 1\<rparr>]\<rparr>)
          else Inl UndefinedBehaviour
      | None \<Rightarrow>
          if free_list s = [] \<and> Size (replacer s) = 0 then Inr (None, s)
          else (case InitNewPage pid s of
                  Inl e \<Rightarrow> Inl e
                | Inr (f, s1) \<Rightarrow>
                    Inr (Some f,
                         s1\<lparr>pages := (pages s1)[f :=
                              (pages s1 ! f)\<lparr>data := ReadPage pid (disk_manager s1)\<rparr>]\<rparr>)))"

definition UnpinPageImpl ::
    "int \<Rightarrow> bool \<Rightarrow> 'd BufferPoolManager \<Rightarrow> error + (bool \<times> 'd BufferPoolManager)" where
  "UnpinPageImpl pid dirty s =
     (case page_table s pid of
        None \<Rightarrow> Inr (False, s)
      | Some frame_id \<Rightarrow>
          if frame_id < length (pages s) then
            let pg = pages s ! frame_id in
            if pin_count pg \<le> 0 then Inr (False, s)
            else
              let pg1 = (if dirty then pg\<lparr>is_dirty := True\<rparr> else pg);
                  pg2 = pg1\<lparr>pin_count := pin_count pg1 - 1\<rparr>;
                  s1 = s\<lparr>pages := (pages s)[frame_id := pg2]\<rparr>
              in if pin_count pg2 = 0
                 then (case Unpin frame_id (replacer s1) of
                         Inl e \<Rightarrow> Inl e
                       | Inr r \<Rightarrow> Inr (True, s1\<lparr>replacer := r\<rparr>))
                 else Inr (True, s1)
          else Inl UndefinedBehaviour)"

definition FlushPageImpl ::
    "int \<Rightarrow> 'd BufferPoolManager \<Rightarrow> error + (bool \<times> 'd BufferPoolManager)" where
  "FlushPageImpl pid s =
     (if pid = INVALID_PAGE_ID then Inr (False, s)
      else (case page_table s pid of
              None \<Rightarrow> Inr (False, s)
            | Some f \<Rightarrow>
                if f < length (pages s) then
                  let pg = pages s ! f in
                  if is_dirty pg
                  then Inr (True,
                            s\<lparr>disk_manager := WritePage (page_id pg) (data pg) (disk_manager s),
                              pages := (pages s)[f := pg\<lparr>is_dirty := False\<rparr>]\<rparr>)
                  else Inr (True, s)
                else Inl UndefinedBehaviour))"

definition NewPageImpl ::
    "('d::zero) BufferPoolManager \<Rightarrow> error + ((int \<times> nat) option \<times> 'd BufferPoolManager)" where
  "NewPageImpl s =
     (if free_list s = [] \<and> Size (replacer s) = 0 then Inr (None, s)
      else (case AllocatePage s of
              (pid, s0) \<Rightarrow>
                (case InitNewPage pid s0 of
                   Inl e \<Rightarrow> Inl e
                 | Inr (f, s1) \<Rightarrow>
                     Inr (Some (pid, f),
                          s1\<lparr>disk_manager :=
                               WritePage (page_id (pages s1 ! f)) (data (pages s1 ! f))
                                 (disk_manager s1)\<rparr>))))"

definition DeletePageImpl ::
    "int \<Rightarrow> ('d::zero) BufferPoolManager \<Rightarrow> error + (bool \<times> 'd BufferPoolManager)" where
  "DeletePageImpl pid s =
     (case page_table s pid of
        None \<Rightarrow> Inr (True, s)
      | Some frame_id \<Rightarrow>
          if frame_id < length (pages s) then
            let pg = pages s ! frame_id in
            if pin_count pg > 0 then Inr (False, s)
            else
              let s1 = s\<lparr>replacer := Pin frame_id (replacer s),
                         page_table := (page_table s)(pid := None)\<rparr>;
                  s2 = (if is_dirty pg
                        then s1\<lparr>disk_manager := WritePage pid (data pg) (disk_manager s1)\<rparr>
                        else s1);
                  s3 = s2\<lparr>pages := (pages s2)[frame_id :=
                             (ResetMemory (pg\<lparr>is_dirty := False\<rparr>))
                                \<lparr>page_id := INVALID_PAGE_ID, pin_count := 0\<rparr>],
                          free_list := free_list s2 @ [frame_id]\<rparr>
              in Inr (True, DeallocatePage pid s3)
          else Inl UndefinedBehaviour)"

definition FlushAllPages_body :: "nat \<Rightarrow> 'd BufferPoolManager \<Rightarrow> 'd BufferPoolManager" where
  "FlushAllPages_body i s =
     (let pg = pages s ! i in
      if page_id pg \<noteq> INVALID_PAGE_ID \<and> is_dirty pg
      then s\<lparr>disk_manager := WritePage (page_id pg) (data pg) (disk_manager s),
             pages := (pages s)[i := pg\<lparr>is_dirty := False\<rparr>]\<rparr>
      else s)"

definition FlushAllPagesImpl :: "'d BufferPoolManager \<Rightarrow> 'd BufferPoolManager" where
  "FlushAllPagesImpl s = fold FlushAllPages_body [0..<pool_size s] s"

text \<open>Sequences of buffer-pool calls.\<close>

datatype bpm_call =
  FetchPage int | UnpinPage int bool | NewPage | DeletePage int | FlushPage int | FlushAllPages

definition bpm_step ::
    "bpm_call \<Rightarrow> ('d::zero) BufferPoolManager \<Rightarrow> error + 'd BufferPoolManager" where
  "bpm_step c s =
     (case c of
        FetchPage pid \<Rightarrow> map_sum id snd (FetchPageImpl pid s)
      | UnpinPage pid dirty \<Rightarrow> map_sum id snd (UnpinPageImpl pid dirty s)
      | NewPage \<Rightarrow> map_sum id snd (NewPageImpl s)
      | DeletePage pid \<Rightarrow> map_sum id snd (DeletePageImpl pid s)
      | FlushPage pid \<Rightarrow> map_sum id snd (FlushPageImpl pid s)
      | FlushAllPages \<Rightarrow> Inr (FlushAllPagesImpl s))"

fun bpm_run :: "bpm_call list \<Rightarrow> ('d::zero) BufferPoolManager \<Rightarrow> error + 'd BufferPoolManager" where
  "bpm_run [] s = Inr s"
| "bpm_run (c # cs) s = (case bpm_step c s of Inl e \<Rightarrow> Inl e | Inr s' \<Rightarrow> bpm_run cs s')"

text \<open>
  A call sequence stays in range when every \<open>FetchPage\<close> asks for a page id that
  \<open>AllocatePage\<close> has already handed out (an id below \<open>next_page_id_\<close>) and whose pin
  count, if the page is resident, is below the largest 32-bit integer (so that
  \<open>pin_count_++\<close> does not overflow), and every \<open>NewPage\<close> finds \<open>next_page_id_\<close>
  below the largest page id (so that the counter does not wrap around and hand out an
  id a second time).
\<close>

fun call_in_range :: "bpm_call \<Rightarrow> 'd BufferPoolManager \<Rightarrow> bool" where
  "call_in_range (FetchPage pid) s =
     (pid < next_page_id s \<and>
      (case page_table s pid of None \<Rightarrow> True | Some f \<Rightarrow> pin_count (pages s ! f) < INT32_MAX))"
| "call_in_range NewPage s = (next_page_id s < INT32_MAX)"
| "call_in_range c s = True"

fun calls_in_range :: "bpm_call list \<Rightarrow> ('d::zero) BufferPoolManager \<Rightarrow> bool" where
  "calls_in_range [] s = True"
| "calls_in_range (c # cs) s =
     (call_in_range c s \<and>
      (case bpm_step c s of Inl e \<Rightarrow> True | Inr s' \<Rightarrow> calls_in_range cs s'))"

text \<open>The three states of a frame, and "exactly one of three".\<close>

definition frame_resident :: "'d BufferPoolManager \<Rightarrow> nat \<Rightarrow> bool" where
  "frame_resident s f \<longleftrightarrow> f \<in> ran (page_table s)"

definition resident_pinned :: "'d BufferPoolManager \<Rightarrow> nat \<Rightarrow> bool" where
  "resident_pinned s f \<longleftrightarrow> frame_resident s f \<and> 0 < pin_count (pages s ! f)"

definition resident_in_replacer :: "'d BufferPoolManager \<Rightarrow> nat \<Rightarrow> bool" where
  "resident_in_replacer s f \<longleftrightarrow> frame_resident s f \<and> f \<in> set (unpin_list (replacer s))"

definition frame_free :: "'d BufferPoolManager \<Rightarrow> nat \<Rightarrow> bool" where
  "frame_free s f \<longleftrightarrow> f \<in> set (free_list s)"

definition exactly_one :: "bool \<Rightarrow> bool \<Rightarrow> bool \<Rightarrow> bool" where
  "exactly_one a b c \<longleftrightarrow> (a \<and> \<not> b \<and> \<not> c) \<or> (\<not> a \<and> b \<and> \<not> c) \<or> (\<not> a \<and> \<not> b \<and> c)"

text \<open>
  The structural invariant of the pool, over the page ids and pin counts of the frames,
  the page table, the free list, the replacer's list and the next page id: free frames
  hold no page and are not in the replacer; frames of the replacer are resident with
  pin count zero; the page table points at the frame that holds the page, only for
  allocated ids; a resident frame with pin count zero is in the replacer; every frame
  is free or resident.
\<close>

definition struct_inv ::
  "int list \<Rightarrow> int list \<Rightarrow> (int \<rightharpoonup> nat) \<Rightarrow> nat list \<Rightarrow> nat list \<Rightarrow> int \<Rightarrow> bool" where
  "struct_inv pids pins pt free unpin nxt \<longleftrightarrow>
     length pins = length pids \<and> distinct free \<and> distinct unpin \<and>
     (\<forall>f \<in> set free. f < length pids \<and> pids ! f = INVALID_PAGE_ID \<and>
                       pt (pids ! f) \<noteq> Some f \<and> f \<notin> set unpin) \<and>
     (\<forall>f \<in> set unpin. f < length pids \<and> pt (pids ! f) = Some f \<and> pins ! f = 0) \<and>
     (\<forall>p f. pt p = Some f \<longrightarrow>
        f < length pids \<and> pids ! f = p \<and> p < nxt \<and> 0 \<le> pins ! f \<and>
        (pins ! f = 0 \<longrightarrow> f \<in> set unpin)) \<and>
     (\<forall>f < length pids. f \<in> set free \<or> pt (pids ! f) = Some f)"

definition bpm_inv :: "'d BufferPoolManager \<Rightarrow> bool" where
  "bpm_inv s \<longleftrightarrow>
     struct_inv (map page_id (pages s)) (map pin_count (pages s)) (page_table s)
       (free_list s) (unpin_list (replacer s)) (next_page_id s) \<and>
     max_num_pages (replacer s) = length (pages s)"

text \<open>Concrete pools for the examples.\<close>

definition blank_disk :: "page_bytes DiskManager" where
  "blank_disk = \<lparr>disk_contents = (\<lambda>_. 0), disk_writes = []\<rparr>"

definition example_pool :: "int \<Rightarrow> bool \<Rightarrow> page_bytes BufferPoolManager" where
  "example_pool pins dirty =
     \<lparr>pages = [\<lparr>data = 0, page_id = 0, pin_count = pins, is_dirty = dirty,
                latch = \<lparr>readers = 0, writer = False\<rparr>\<rparr>],
      page_table = [0 \<mapsto> 0], free_list = [],
      replacer = \<lparr>max_num_pages = 1, unpin_list = (if pins = 0 then [0] else [])\<rparr>,
      disk_manager = blank_disk, next_page_id = 1, deallocated = []\<rparr>"

definition example_calls :: "bpm_call list" where
  "example_calls = [NewPage, UnpinPage 0 True, NewPage, FetchPage 0, FlushAllPages,
                    UnpinPage 1 False, DeletePage 1, NewPage]"




section \<open>B+ tree pages\<close>

text \<open>
  Modelled from the spec: the page classes (\<open>BPlusTreePage\<close>, its leaf and internal
  subclasses, \<open>HeaderPage\<close>) are declared outside the files at hand.  The header of a
  tree page has \<open>page_type\<close>, \<open>size\<close>, \<open>max_size\<close>, \<open>parent_page_id\<close> and
  \<open>page_id\<close>; a leaf adds \<open>next_page_id\<close> and an array of key/value pairs, an
  internal page an array of key/child pairs whose first key is unused.  The fields are
  named after their getters.  The arrays hold the first \<open>size\<close> entries; sizes are
  bounded by what fits in a page, so integer overflow does not arise and \<open>int\<close> is
  used.  A frame's data is read through \<open>view\<close> (the \<open>reinterpret_cast\<close> of the
  source); zeroed memory reads as a page of type 0 with every field zero and no entries.
\<close>

datatype IndexPageType = INVALID_INDEX_PAGE | LEAF_PAGE | INTERNAL_PAGE

record ('k, 'v) BPlusTreePage =
  GetPageType :: IndexPageType
  GetSize :: int
  GetMaxSize :: int
  GetParentPageId :: int
  GetPageId :: int
  GetNextPageId :: int
  leaf_array :: "('k \<times> 'v) list"
  internal_array :: "('k \<times> int) list"
  header_records :: "(string \<times> int) list"

datatype ('k, 'v) PageData = PageData (view: "('k, 'v) BPlusTreePage")

instantiation PageData :: (type, type) zero
begin
definition zero_PageData :: "('k, 'v) PageData" where
  "zero_PageData =
     PageData \<lparr>GetPageType = INVALID_INDEX_PAGE, GetSize = 0, GetMaxSize = 0,
               GetParentPageId = 0, GetPageId = 0, GetNextPageId = 0,
               leaf_array = [], internal_array = [], header_records = []\<rparr>"
instance ..
end

definition HEADER_PAGE_ID :: int where
  "HEADER_PAGE_ID = 0"

definition IsLeafPage :: "('k, 'v) BPlusTreePage \<Rightarrow> bool" where
  "IsLeafPage n \<longleftrightarrow> GetPageType n = LEAF_PAGE"

definition IsRootPage :: "('k, 'v) BPlusTreePage \<Rightarrow> bool" where
  "IsRootPage n \<longleftrightarrow> GetParentPageId n = INVALID_PAGE_ID"

text \<open>Modelled from the spec (section 3): the minimum size is the ceiling of half the maximum.\<close>

definition GetMinSize :: "('k, 'v) BPlusTreePage \<Rightarrow> int" where
  "GetMinSize n = (GetMaxSize n + 1) div 2"

text \<open>
  Modelled from the spec: reads of the arrays.  An index outside \<open>0 .. size - 1\<close>
  reads bytes that hold no entry; the model has no value for them.
\<close>

definition entry_at :: "'a list \<Rightarrow> int \<Rightarrow> error + 'a" where
  "entry_at xs i = (if 0 \<le> i \<and> i < int (length xs) then Inr (xs ! nat i) else Inl UndefinedBehaviour)"

definition leaf_KeyAt :: "('k, 'v) BPlusTreePage \<Rightarrow> int \<Rightarrow> error + 'k" where
  "leaf_KeyAt n i = map_sum id fst (entry_at (leaf_array n) i)"

definition KeyAt :: "('k, 'v) BPlusTreePage \<Rightarrow> int \<Rightarrow> error + 'k" where
  "KeyAt n i = map_sum id fst (entry_at (internal_array n) i)"

definition ValueAt :: "('k, 'v) BPlusTreePage \<Rightarrow> int \<Rightarrow> error + int" where
  "ValueAt n i = map_sum id snd (entry_at (internal_array n) i)"

text \<open>
  Modelled from the spec: lookup in a leaf (the value stored under the key, if any) and
  in an internal page (the child whose key range holds the key: the child of the last
  entry after the first whose key is at most the key, else the first child).
\<close>

definition leaf_Lookup :: "'k \<Rightarrow> ('k, 'v) BPlusTreePage \<Rightarrow> 'v option" where
  "leaf_Lookup key n = map_of (leaf_array n) key"

fun internal_child :: "('k::linorder) \<Rightarrow> int \<Rightarrow> ('k \<times> int) list \<Rightarrow> int" where
  "internal_child key c [] = c"
| "internal_child key c ((k, v) # es) = (if k \<le> key then internal_child key v es else c)"

definition Lookup :: "('k::linorder) \<Rightarrow> ('k, 'v) BPlusTreePage \<Rightarrow> error + int" where
  "Lookup key n =
     (case internal_array n of
        [] \<Rightarrow> Inl UndefinedBehaviour
      | (k0, c0) # es \<Rightarrow> Inr (internal_child key c0 es))"

section \<open>Latches, the transaction and the tree (src/storage/index/b\_plus\_tree.cpp)\<close>

definition ebind :: "error + 'a \<Rightarrow> ('a \<Rightarrow> error + 'b) \<Rightarrow> error + 'b" where
  "ebind m f = (case m of Inl e \<Rightarrow> Inl e | Inr x \<Rightarrow> f x)"

text \<open>
  Modelled from the spec: the reader/writer latch of a frame, for one running thread.
  Acquiring a latch that is held in a conflicting mode would block for ever; releasing
  one that is not held is undefined.
\<close>

definition update_latch ::
    "nat \<Rightarrow> (rwlatch \<Rightarrow> rwlatch) \<Rightarrow> 'd BufferPoolManager \<Rightarrow> 'd BufferPoolManager" where
  "update_latch f g b = b\<lparr>pages := (pages b)[f := (pages b ! f)\<lparr>latch := g (latch (pages b ! f))\<rparr>]\<rparr>"

definition RLatch :: "nat \<Rightarrow> 'd BufferPoolManager \<Rightarrow> error + 'd BufferPoolManager" where
  "RLatch f b =
     (if \<not> f < length (pages b) then Inl UndefinedBehaviour
      else if writer (latch (pages b ! f)) then Inl Deadlock
      else Inr (update_latch f (\<lambda>l. l\<lparr>readers := readers l + 1\<rparr>) b))"

definition RUnlatch :: "nat \<Rightarrow> 'd BufferPoolManager \<Rightarrow> error + 'd BufferPoolManager" where
  "RUnlatch f b =
     (if \<not> f < length (pages b) then Inl UndefinedBehaviour
      else if readers (latch (pages b ! f)) = 0 then Inl UndefinedBehaviour
      else Inr (update_latch f (\<lambda>l. l\<lparr>readers := readers l - 1\<rparr>) b))"

definition WLatch :: "nat \<Rightarrow> 'd BufferPoolManager \<Rightarrow> error + 'd BufferPoolManager" where
  "WLatch f b =
     (if \<not> f < length (pages b) then Inl UndefinedBehaviour
      else if writer (latch (pages b ! f)) \<or> readers (latch (pages b ! f)) \<noteq> 0 then Inl Deadlock
      else Inr (update_latch f (\<lambda>l. l\<lparr>writer := True\<rparr>) b))"

definition WUnlatch :: "nat \<Rightarrow> 'd BufferPoolManager \<Rightarrow> error + 'd BufferPoolManager" where
  "WUnlatch f b =
     (if \<not> f < length (pages b) then Inl UndefinedBehaviour
      else if \<not> writer (latch (pages b ! f)) then Inl UndefinedBehaviour
      else Inr (update_latch f (\<lambda>l. l\<lparr>writer := False\<rparr>) b))"

text \<open>
  The transaction holds the latched pages (pointers to frames, in acquisition order)
  and the page ids queued for deletion (a set; kept in insertion order).
\<close>

record Transaction =
  page_set :: "nat list"
  deleted_page_set :: "int list"

definition AddIntoPageSet :: "nat \<Rightarrow> Transaction \<Rightarrow> Transaction" where
  "AddIntoPageSet page txn = txn\<lparr>page_set := page_set txn @ [page]\<rparr>"

definition AddIntoDeletedPageSet :: "int \<Rightarrow> Transaction \<Rightarrow> Transaction" where
  "AddIntoDeletedPageSet pid txn =
     (if pid \<in> set (deleted_page_set txn) then txn
      else txn\<lparr>deleted_page_set := deleted_page_set txn @ [pid]\<rparr>)"

text \<open>
  The tree.  \<open>guard_page_id\<close> is declared outside the files at hand and is a field
  here.  The buffer pool is shared with the iterators; it is a field of the tree.
\<close>

record ('k, 'v) BPlusTree =
  index_name :: string
  root_page_id :: int
  bpm :: "('k, 'v) PageData BufferPoolManager"
  leaf_max_size :: int
  internal_max_size :: int
  guard_page_id :: int

datatype OpType = READ | INSERT | DELETE

definition IsEmpty :: "('k, 'v) BPlusTree \<Rightarrow> bool" where
  "IsEmpty t \<longleftrightarrow> root_page_id t = INVALID_PAGE_ID"

text \<open>The tree page behind a \<open>Page *\<close>, and a write through such a pointer.\<close>

definition node_at :: "('k, 'v) PageData BufferPoolManager \<Rightarrow> nat \<Rightarrow> ('k, 'v) BPlusTreePage" where
  "node_at b f = view (data (pages b ! f))"

definition update_node ::
    "nat \<Rightarrow> (('k, 'v) BPlusTreePage \<Rightarrow> ('k, 'v) BPlusTreePage) \<Rightarrow>
     ('k, 'v) PageData BufferPoolManager \<Rightarrow> ('k, 'v) PageData BufferPoolManager" where
  "update_node f g b = b\<lparr>pages := (pages b)[f := (pages b ! f)\<lparr>data := PageData (g (node_at b f))\<rparr>]\<rparr>"

text \<open>\<open>FetchPage\<close> as the tree uses it: the result is dereferenced at once.\<close>

definition bpm_fetch ::
    "int \<Rightarrow> ('d::zero) BufferPoolManager \<Rightarrow> error + (nat \<times> 'd BufferPoolManager)" where
  "bpm_fetch pid b =
     ebind (FetchPageImpl pid b)
       (\<lambda>(r, b'). case r of None \<Rightarrow> Inl UndefinedBehaviour | Some f \<Rightarrow> Inr (f, b'))"

definition bpm_unpin :: "int \<Rightarrow> bool \<Rightarrow> 'd BufferPoolManager \<Rightarrow> error + 'd BufferPoolManager" where
  "bpm_unpin pid dirty b = map_sum id snd (UnpinPageImpl pid dirty b)"

text \<open>\<open>ReleaseAndUnpin\<close>: the two loops, then the function.\<close>

fun release_pages ::
    "OpType \<Rightarrow> nat list \<Rightarrow> 'd BufferPoolManager \<Rightarrow> error + 'd BufferPoolManager" where
  "release_pages op [] b = Inr b"
| "release_pages op (page # ps) b =
     (if \<not> page < length (pages b) then Inl UndefinedBehaviour
      else
        let pid = page_id (pages b ! page) in
        if op = READ
        then ebind (RUnlatch page b) (\<lambda>b1. ebind (bpm_unpin pid False b1) (release_pages op ps))
        else ebind (WUnlatch page b) (\<lambda>b1. ebind (bpm_unpin pid True b1) (release_pages op ps)))"

fun delete_pages :: "int list \<Rightarrow> ('d::zero) BufferPoolManager \<Rightarrow> error + 'd BufferPoolManager" where
  "delete_pages [] b = Inr b"
| "delete_pages (pid # pids) b = ebind (map_sum id snd (DeletePageImpl pid b)) (delete_pages pids)"

definition ReleaseAndUnpin ::
    "OpType \<Rightarrow> ('d::zero) BufferPoolManager \<Rightarrow> Transaction \<Rightarrow>
     error + ('d BufferPoolManager \<times> Transaction)" where
  "ReleaseAndUnpin op b txn =
     ebind (release_pages op (page_set txn) b)
       (\<lambda>b1. ebind (delete_pages (deleted_page_set txn) b1)
          (\<lambda>b2. Inr (b2, txn\<lparr>page_set := [], deleted_page_set := []\<rparr>)))"

definition IsSafe :: "('k, 'v) BPlusTreePage \<Rightarrow> OpType \<Rightarrow> bool" where
  "IsSafe bptp op =
     (if op = INSERT then GetSize bptp < GetMaxSize bptp - 1
      else GetSize bptp > GetMinSize bptp)"

text \<open>
  \<open>FindLeafPageWithLock\<close>.  The latching of a page, with the release of the pages
  held so far, is the same code inside and after the loop; it is \<open>latch_crab\<close> here.
  The loop runs on fuel: \<open>None\<close> is a descent that has not reached a leaf.
\<close>

definition latch_crab ::
    "OpType \<Rightarrow> nat \<Rightarrow> ('k, 'v) PageData BufferPoolManager \<Rightarrow> Transaction \<Rightarrow>
     error + (('k, 'v) PageData BufferPoolManager \<times> Transaction)" where
  "latch_crab op page b txn =
     ebind
       (if op = READ
        then ebind (RLatch page b) (\<lambda>b1. ReleaseAndUnpin op b1 txn)
        else ebind (WLatch page b)
               (\<lambda>b1. if IsSafe (node_at b1 page) op then ReleaseAndUnpin op b1 txn
                     else Inr (b1, txn)))
       (\<lambda>(b2, txn2). Inr (b2, AddIntoPageSet page txn2))"

fun descend ::
    "nat \<Rightarrow> ('k::linorder) \<Rightarrow> OpType \<Rightarrow> bool \<Rightarrow> nat \<Rightarrow>
     ('k, 'v) PageData BufferPoolManager \<Rightarrow> Transaction \<Rightarrow>
     (error + (nat \<times> ('k, 'v) PageData BufferPoolManager \<times> Transaction)) option" where
  "descend 0 key op left_most page b txn = None"
| "descend (Suc fuel) key op left_most page b txn =
     (if \<not> IsLeafPage (node_at b page) then
        (case latch_crab op page b txn of
           Inl e \<Rightarrow> Some (Inl e)
         | Inr (b1, txn1) \<Rightarrow>
             (case (if left_most then ValueAt (node_at b1 page) 0
                    else Lookup key (node_at b1 page)) of
                Inl e \<Rightarrow> Some (Inl e)
              | Inr next_id \<Rightarrow>
                  (case bpm_fetch next_id b1 of
                     Inl e \<Rightarrow> Some (Inl e)
                   | Inr (page', b2) \<Rightarrow> descend fuel key op left_most page' b2 txn1)))
      else Some (map_sum id (\<lambda>(b1, txn1). (page, b1, txn1)) (latch_crab op page b txn)))"

definition FindLeafPageWithLock ::
    "nat \<Rightarrow> ('k::linorder) \<Rightarrow> OpType \<Rightarrow> bool \<Rightarrow> ('k, 'v) BPlusTree \<Rightarrow> Transaction \<Rightarrow>
     (error + (nat \<times> ('k, 'v) BPlusTree \<times> Transaction)) option" where
  "FindLeafPageWithLock fuel key op left_most t txn =
     (case bpm_fetch (root_page_id t) (bpm t) of
        Inl e \<Rightarrow> Some (Inl e)
      | Inr (page, b) \<Rightarrow>
          map_option (map_sum id (\<lambda>(page', b', txn'). (page', t\<lparr>bpm := b'\<rparr>, txn')))
            (descend fuel key op left_most page b txn))"

text \<open>
  \<open>GetValue\<close>.  The result vector is resized to one element, which \<open>Lookup\<close> fills
  when the key is found; the model returns that element as an option.
\<close>

definition GetValue ::
    "nat \<Rightarrow> ('k::linorder) \<Rightarrow> ('k, 'v) BPlusTree \<Rightarrow> Transaction \<Rightarrow>
     (error + ((bool \<times> 'v option) \<times> ('k, 'v) BPlusTree \<times> Transaction)) option" where
  "GetValue fuel key t txn =
     (case ebind (bpm_fetch (guard_page_id t) (bpm t)) (\<lambda>(page, b). ebind (RLatch page b) (\<lambda>b1. Inr (page, b1))) of
        Inl e \<Rightarrow> Some (Inl e)
      | Inr (page, b1) \<Rightarrow>
          if IsEmpty t then
            Some (ebind (RUnlatch page b1) (\<lambda>b2. Inr ((False, None), t\<lparr>bpm := b2\<rparr>, txn)))
          else
            (case FindLeafPageWithLock fuel key READ False (t\<lparr>bpm := b1\<rparr>) (AddIntoPageSet page txn) of
               None \<Rightarrow> None
             | Some (Inl e) \<Rightarrow> Some (Inl e)
             | Some (Inr (leaf, t1, txn1)) \<Rightarrow>
                 let r = leaf_Lookup key (node_at (bpm t1) leaf) in
                 Some (ebind (ReleaseAndUnpin READ (bpm t1) txn1)
                         (\<lambda>(b3, txn3). Inr ((r \<noteq> None, r), t1\<lparr>bpm := b3\<rparr>, txn3)))))"

section \<open>The index iterator (src/storage/index/index\_iterator.cpp)\<close>

text \<open>
  The iterator holds a pointer to the leaf (the frame), the index into the leaf, and a
  pointer to the buffer pool, which is passed to each call and returned.
\<close>

record IndexIterator =
  lp :: nat
  current_index :: int

definition isEnd :: "IndexIterator \<Rightarrow> ('k, 'v) PageData BufferPoolManager \<Rightarrow> bool" where
  "isEnd it b \<longleftrightarrow>
     GetSize (node_at b (lp it)) = current_index it \<and>
     GetNextPageId (node_at b (lp it)) = INVALID_PAGE_ID"

definition GetItem :: "IndexIterator \<Rightarrow> ('k, 'v) PageData BufferPoolManager \<Rightarrow> error + ('k \<times> 'v)" where
  "GetItem it b = entry_at (leaf_array (node_at b (lp it))) (current_index it)"

definition increment ::
    "IndexIterator \<Rightarrow> ('k, 'v) PageData BufferPoolManager \<Rightarrow>
     error + (IndexIterator \<times> ('k, 'v) PageData BufferPoolManager)" where
  "increment it b =
     (let it1 = it\<lparr>current_index := current_index it + 1\<rparr>;
          next_id = GetNextPageId (node_at b (lp it1))
      in if GetSize (node_at b (lp it1)) = current_index it1 \<and> next_id \<noteq> INVALID_PAGE_ID
         then
           let old_id = GetPageId (node_at b (lp it1)) in
           ebind (bpm_fetch next_id b)
             (\<lambda>(page, b1). ebind (bpm_unpin old_id False b1)
                (\<lambda>b2. Inr (it1\<lparr>lp := page, current_index := 0\<rparr>, b2)))
         else Inr (it1, b))"

section \<open>Auxiliary notions and examples for the tree theorems\<close>

definition example_leaf :: "(int, int) BPlusTreePage" where
  "example_leaf =
     \<lparr>GetPageType = LEAF_PAGE, GetSize = 2, GetMaxSize = 4, GetParentPageId = INVALID_PAGE_ID,
      GetPageId = 1, GetNextPageId = INVALID_PAGE_ID, leaf_array = [(1, 10), (2, 20)],
      internal_array = [], header_records = []\<rparr>"

definition example_leaf_pool :: "(int, int) PageData BufferPoolManager" where
  "example_leaf_pool =
     \<lparr>pages = [\<lparr>data = PageData example_leaf, page_id = 1, pin_count = 1, is_dirty = False,
                latch = \<lparr>readers = 0, writer = False\<rparr>\<rparr>],
      page_table = [1 \<mapsto> 0], free_list = [],
      replacer = \<lparr>max_num_pages = 1, unpin_list = []\<rparr>,
      disk_manager = \<lparr>disk_contents = (\<lambda>_. 0), disk_writes = []\<rparr>,
      next_page_id = 2, deallocated = []\<rparr>"

definition latch_held :: "OpType \<Rightarrow> rwlatch \<Rightarrow> bool" where
  "latch_held op l \<longleftrightarrow> (if op = READ then readers l \<noteq> 0 else writer l)"


text \<open>A frame is held by the operation: resident under its own page id, pinned and latched.\<close>

definition frame_held :: "OpType \<Rightarrow> 'd BufferPoolManager \<Rightarrow> nat \<Rightarrow> bool" where
  "frame_held op b f \<longleftrightarrow>
     page_table b (page_id (pages b ! f)) = Some f \<and> 0 < pin_count (pages b ! f) \<and>
     latch_held op (latch (pages b ! f))"


text \<open>An empty tree over a pool whose only frame holds the guard page (page 0), unpinned.\<close>

definition example_empty_tree :: "(int, int) BPlusTree" where
  "example_empty_tree =
     \<lparr>index_name = ''index'', root_page_id = INVALID_PAGE_ID,
      bpm = \<lparr>pages = [\<lparr>data = 0, page_id = 0, pin_count = 0, is_dirty = False,
                      latch = \<lparr>readers = 0, writer = False\<rparr>\<rparr>],
             page_table = [0 \<mapsto> 0], free_list = [],
             replacer = \<lparr>max_num_pages = 1, unpin_list = [0]\<rparr>,
             disk_manager = \<lparr>disk_contents = (\<lambda>_. 0), disk_writes = []\<rparr>,
             next_page_id = 1, deallocated = []\<rparr>,
      leaf_max_size = 4, internal_max_size = 4, guard_page_id = 0\<rparr>"

section \<open>Operations of the page classes\<close>

text \<open>
  Modelled from the spec: the member functions of the leaf, internal and header page
  classes that the tree calls.  They are declared outside the files at hand; each is
  written from the specification's description of the page layout and of splits,
  coalescing and redistribution.  A function that moves entries between two pages takes
  and returns both pages.
\<close>

definition leaf_Insert :: "('k::linorder) \<Rightarrow> 'v \<Rightarrow> ('k, 'v) BPlusTreePage \<Rightarrow> ('k, 'v) BPlusTreePage" where
  "leaf_Insert key val n =
     n\<lparr>leaf_array := insort_key fst (key, val) (leaf_array n), GetSize := GetSize n + 1\<rparr>"

definition RemoveAndDeleteRecord :: "'k \<Rightarrow> ('k, 'v) BPlusTreePage \<Rightarrow> ('k, 'v) BPlusTreePage" where
  "RemoveAndDeleteRecord key n =
     (if key \<in> fst ` set (leaf_array n)
      then n\<lparr>leaf_array := filter (\<lambda>e. fst e \<noteq> key) (leaf_array n), GetSize := GetSize n - 1\<rparr>
      else n)"

definition leaf_MoveHalfTo ::
    "('k, 'v) BPlusTreePage \<Rightarrow> ('k, 'v) BPlusTreePage \<Rightarrow> ('k, 'v) BPlusTreePage \<times> ('k, 'v) BPlusTreePage" where
  "leaf_MoveHalfTo n r =
     (let h = nat (GetSize n) div 2 in
      (n\<lparr>leaf_array := take h (leaf_array n), GetSize := int h\<rparr>,
       r\<lparr>leaf_array := leaf_array r @ drop h (leaf_array n),
         GetSize := GetSize r + (GetSize n - int h)\<rparr>))"

definition leaf_MoveAllTo ::
    "('k, 'v) BPlusTreePage \<Rightarrow> ('k, 'v) BPlusTreePage \<Rightarrow> ('k, 'v) BPlusTreePage \<times> ('k, 'v) BPlusTreePage" where
  "leaf_MoveAllTo n r =
     (n\<lparr>leaf_array := [], GetSize := 0\<rparr>,
      r\<lparr>leaf_array := leaf_array r @ leaf_array n, GetSize := GetSize r + GetSize n\<rparr>)"

definition leaf_MoveFirstToEndOf ::
    "('k, 'v) BPlusTreePage \<Rightarrow> ('k, 'v) BPlusTreePage \<Rightarrow>
     error + (('k, 'v) BPlusTreePage \<times> ('k, 'v) BPlusTreePage)" where
  "leaf_MoveFirstToEndOf n r =
     (case leaf_array n of
        [] \<Rightarrow> Inl UndefinedBehaviour
      | e # es \<Rightarrow>
          Inr (n\<lparr>leaf_array := es, GetSize := GetSize n - 1\<rparr>,
               r\<lparr>leaf_array := leaf_array r @ [e], GetSize := GetSize r + 1\<rparr>))"

definition leaf_MoveLastToFrontOf ::
    "('k, 'v) BPlusTreePage \<Rightarrow> ('k, 'v) BPlusTreePage \<Rightarrow>
     error + (('k, 'v) BPlusTreePage \<times> ('k, 'v) BPlusTreePage)" where
  "leaf_MoveLastToFrontOf n r =
     (if leaf_array n = [] then Inl UndefinedBehaviour
      else Inr (n\<lparr>leaf_array := butlast (leaf_array n), GetSize := GetSize n - 1\<rparr>,
                r\<lparr>leaf_array := last (leaf_array n) # leaf_array r, GetSize := GetSize r + 1\<rparr>))"

text \<open>Internal pages.  \<open>ValueIndex\<close> is the position of a child, or -1.\<close>

fun index_of :: "int \<Rightarrow> ('k \<times> int) list \<Rightarrow> int \<Rightarrow> int" where
  "index_of v [] i = - 1"
| "index_of v ((k, c) # es) i = (if c = v then i else index_of v es (i + 1))"

definition ValueIndex :: "('k, 'v) BPlusTreePage \<Rightarrow> int \<Rightarrow> int" where
  "ValueIndex n v = index_of v (internal_array n) 0"

definition SetKeyAt :: "int \<Rightarrow> 'k \<Rightarrow> ('k, 'v) BPlusTreePage \<Rightarrow> error + ('k, 'v) BPlusTreePage" where
  "SetKeyAt i key n =
     (if 0 \<le> i \<and> i < int (length (internal_array n))
      then Inr (n\<lparr>internal_array :=
                    (internal_array n)[nat i := (key, snd (internal_array n ! nat i))]\<rparr>)
      else Inl UndefinedBehaviour)"

definition internal_Remove :: "int \<Rightarrow> ('k, 'v) BPlusTreePage \<Rightarrow> error + ('k, 'v) BPlusTreePage" where
  "internal_Remove i n =
     (if 0 \<le> i \<and> i < int (length (internal_array n))
      then Inr (n\<lparr>internal_array := take (nat i) (internal_array n) @ drop (nat i + 1) (internal_array n),
                  GetSize := GetSize n - 1\<rparr>)
      else Inl UndefinedBehaviour)"

definition RemoveAndReturnOnlyChild :: "('k, 'v) BPlusTreePage \<Rightarrow> error + (int \<times> ('k, 'v) BPlusTreePage)" where
  "RemoveAndReturnOnlyChild n =
     (case internal_array n of
        [] \<Rightarrow> Inl UndefinedBehaviour
      | (k, c) # es \<Rightarrow> Inr (c, n\<lparr>internal_array := [], GetSize := 0\<rparr>))"

definition PopulateNewRoot ::
    "int \<Rightarrow> ('k::zero) \<Rightarrow> int \<Rightarrow> ('k, 'v) BPlusTreePage \<Rightarrow> ('k, 'v) BPlusTreePage" where
  "PopulateNewRoot old_value key new_value n =
     n\<lparr>internal_array :=
         [(case internal_array n of [] \<Rightarrow> 0 | (k, c) # es \<Rightarrow> k, old_value), (key, new_value)],
       GetSize := 2\<rparr>"

definition InsertNodeAfter ::
    "int \<Rightarrow> 'k \<Rightarrow> int \<Rightarrow> ('k, 'v) BPlusTreePage \<Rightarrow> ('k, 'v) BPlusTreePage" where
  "InsertNodeAfter old_value key new_value n =
     (let i = nat (ValueIndex n old_value + 1) in
      n\<lparr>internal_array := take i (internal_array n) @ (key, new_value) # drop i (internal_array n),
        GetSize := GetSize n + 1\<rparr>)"

definition internal_MoveHalfTo ::
    "('k, 'v) BPlusTreePage \<Rightarrow> ('k, 'v) BPlusTreePage \<Rightarrow> ('k, 'v) BPlusTreePage \<times> ('k, 'v) BPlusTreePage" where
  "internal_MoveHalfTo n r =
     (let h = nat (GetSize n) div 2 in
      (n\<lparr>internal_array := take h (internal_array n), GetSize := int h\<rparr>,
       r\<lparr>internal_array := internal_array r @ drop h (internal_array n),
         GetSize := GetSize r + (GetSize n - int h)\<rparr>))"

definition internal_MoveAllTo ::
    "'k \<Rightarrow> ('k, 'v) BPlusTreePage \<Rightarrow> ('k, 'v) BPlusTreePage \<Rightarrow>
     error + (('k, 'v) BPlusTreePage \<times> ('k, 'v) BPlusTreePage)" where
  "internal_MoveAllTo middle_key n r =
     (case internal_array n of
        [] \<Rightarrow> Inl UndefinedBehaviour
      | (k, c) # es \<Rightarrow>
          Inr (n\<lparr>internal_array := [], GetSize := 0\<rparr>,
               r\<lparr>internal_array := internal_array r @ (middle_key, c) # es,
                 GetSize := GetSize r + GetSize n\<rparr>))"

definition internal_MoveFirstToEndOf ::
    "'k \<Rightarrow> ('k, 'v) BPlusTreePage \<Rightarrow> ('k, 'v) BPlusTreePage \<Rightarrow>
     error + (('k, 'v) BPlusTreePage \<times> ('k, 'v) BPlusTreePage)" where
  "internal_MoveFirstToEndOf middle_key n r =
     (case internal_array n of
        [] \<Rightarrow> Inl UndefinedBehaviour
      | (k, c) # es \<Rightarrow>
          Inr (n\<lparr>internal_array := es, GetSize := GetSize n - 1\<rparr>,
               r\<lparr>internal_array := internal_array r @ [(middle_key, c)],
                 GetSize := GetSize r + 1\<rparr>))"

definition internal_MoveLastToFrontOf ::
    "'k \<Rightarrow> ('k, 'v) BPlusTreePage \<Rightarrow> ('k, 'v) BPlusTreePage \<Rightarrow>
     error + (('k, 'v) BPlusTreePage \<times> ('k, 'v) BPlusTreePage)" where
  "internal_MoveLastToFrontOf middle_key n r =
     (if internal_array n = [] then Inl UndefinedBehaviour
      else Inr (n\<lparr>internal_array := butlast (internal_array n), GetSize := GetSize n - 1\<rparr>,
                r\<lparr>internal_array :=
                     last (internal_array n) #
                       (case internal_array r of [] \<Rightarrow> [] | (k, c) # es \<Rightarrow> (middle_key, c) # es),
                  GetSize := GetSize r + 1\<rparr>))"

text \<open>The header page: records of index name and root page id.\<close>

definition InsertRecord :: "string \<Rightarrow> int \<Rightarrow> ('k, 'v) BPlusTreePage \<Rightarrow> ('k, 'v) BPlusTreePage" where
  "InsertRecord name root n =
     (if name \<in> fst ` set (header_records n) then n
      else n\<lparr>header_records := header_records n @ [(name, root)]\<rparr>)"

definition UpdateRecord :: "string \<Rightarrow> int \<Rightarrow> ('k, 'v) BPlusTreePage \<Rightarrow> ('k, 'v) BPlusTreePage" where
  "UpdateRecord name root n =
     n\<lparr>header_records := map (\<lambda>(m, r). if m = name then (m, root) else (m, r)) (header_records n)\<rparr>"

section \<open>Structural modifications (src/storage/index/b\_plus\_tree.cpp)\<close>

text \<open>
  Writes through two pointers at once, and the loop of the internal-page moves that
  sets the parent of every moved child (fetch, \<open>SetParentPageId\<close>, unpin dirty).
\<close>

definition update_two ::
    "nat \<Rightarrow> nat \<Rightarrow> ('k, 'v) BPlusTreePage \<times> ('k, 'v) BPlusTreePage \<Rightarrow>
     ('k, 'v) PageData BufferPoolManager \<Rightarrow> ('k, 'v) PageData BufferPoolManager" where
  "update_two fa fb xy b = update_node fb (\<lambda>_. snd xy) (update_node fa (\<lambda>_. fst xy) b)"

fun reparent ::
    "int \<Rightarrow> int list \<Rightarrow> ('k, 'v) PageData BufferPoolManager \<Rightarrow>
     error + ('k, 'v) PageData BufferPoolManager" where
  "reparent pid [] b = Inr b"
| "reparent pid (c # cs) b =
     ebind (bpm_fetch c b)
       (\<lambda>(f, b1). ebind (bpm_unpin c True (update_node f (\<lambda>n. n\<lparr>GetParentPageId := pid\<rparr>) b1))
          (reparent pid cs))"

type_synonym ('k, 'v) tstate = "('k, 'v) BPlusTree \<times> Transaction"

definition UpdateRootPageId :: "int \<Rightarrow> ('k, 'v) BPlusTree \<Rightarrow> error + ('k, 'v) BPlusTree" where
  "UpdateRootPageId insert_record t =
     ebind (bpm_fetch HEADER_PAGE_ID (bpm t))
       (\<lambda>(header_page, b1).
          let b2 = update_node header_page
                     (if insert_record \<noteq> 0 then InsertRecord (index_name t) (root_page_id t)
                      else UpdateRecord (index_name t) (root_page_id t)) b1
          in ebind (bpm_unpin HEADER_PAGE_ID True b2) (\<lambda>b3. Inr (t\<lparr>bpm := b3\<rparr>)))"

definition AdjustRoot :: "nat \<Rightarrow> ('k, 'v) BPlusTree \<Rightarrow> error + (bool \<times> ('k, 'v) BPlusTree)" where
  "AdjustRoot old_root_node t =
     (let n = node_at (bpm t) old_root_node in
      if IsLeafPage n \<and> GetSize n = 0 then
        ebind (UpdateRootPageId 0 (t\<lparr>root_page_id := INVALID_PAGE_ID\<rparr>)) (\<lambda>t1. Inr (True, t1))
      else if \<not> IsLeafPage n \<and> GetSize n = 1 then
        ebind (RemoveAndReturnOnlyChild n)
          (\<lambda>(child, n1).
             let b1 = update_node old_root_node (\<lambda>_. n1) (bpm t) in
             ebind (bpm_fetch child b1)
               (\<lambda>(root_page, b2).
                  ebind (bpm_unpin child True
                           (update_node root_page (\<lambda>m. m\<lparr>GetParentPageId := INVALID_PAGE_ID\<rparr>) b2))
                    (\<lambda>b3. ebind (UpdateRootPageId 0 (t\<lparr>root_page_id := child, bpm := b3\<rparr>))
                            (\<lambda>t1. Inr (True, t1)))))
      else Inr (False, t))"

definition IsCoalesce :: "('k, 'v) BPlusTreePage \<Rightarrow> ('k, 'v) BPlusTreePage \<Rightarrow> bool" where
  "IsCoalesce lhs rhs \<longleftrightarrow> GetSize lhs + GetSize rhs < GetMaxSize lhs"

text \<open>
  \<open>Redistribute\<close>: with \<open>index = 0\<close> the first entry of the neighbour goes to the end
  of the node, otherwise the last entry of the neighbour goes to the front of the node.
\<close>

definition Redistribute ::
    "nat \<Rightarrow> nat \<Rightarrow> int \<Rightarrow> ('k, 'v) PageData BufferPoolManager \<Rightarrow>
     error + ('k, 'v) PageData BufferPoolManager" where
  "Redistribute neighbor_node node index b =
     (let sib = node_at b neighbor_node; cur = node_at b node in
      if index = 0 then
        (if IsLeafPage cur then
           ebind (leaf_MoveFirstToEndOf sib cur) (\<lambda>xy. Inr (update_two neighbor_node node xy b))
         else
           ebind (KeyAt sib 0)
             (\<lambda>k0. ebind (internal_MoveFirstToEndOf k0 sib cur)
                (\<lambda>xy. reparent (GetPageId cur) [snd (hd (internal_array sib))]
                         (update_two neighbor_node node xy b))))
      else
        (if IsLeafPage cur then
           ebind (leaf_MoveLastToFrontOf sib cur) (\<lambda>xy. Inr (update_two neighbor_node node xy b))
         else
           ebind (KeyAt cur 0)
             (\<lambda>k0. ebind (internal_MoveLastToFrontOf k0 sib cur)
                (\<lambda>xy. reparent (GetPageId cur) [snd (last (internal_array sib))]
                         (update_two neighbor_node node xy b)))))"

text \<open>
  \<open>Coalesce\<close> moves every entry of \<open>node\<close> into \<open>neighbor_node\<close>, queues \<open>node\<close> for
  deletion and removes entry \<open>index\<close> of the parent; when the parent underflows it calls
  \<open>CoalesceOrRedistribute\<close> on the parent, which is the parameter \<open>cor\<close> here.  The
  mutual recursion runs on fuel; \<open>None\<close> is a recursion that has not ended.
\<close>

definition Coalesce ::
    "(nat \<Rightarrow> ('k, 'v) tstate \<Rightarrow> (error + (bool \<times> ('k, 'v) tstate)) option) \<Rightarrow>
     nat \<Rightarrow> nat \<Rightarrow> nat \<Rightarrow> int \<Rightarrow> ('k, 'v) tstate \<Rightarrow>
     (error + (bool \<times> ('k, 'v) tstate)) option" where
  "Coalesce cor neighbor_node node parent index s =
     (case s of (t, txn) \<Rightarrow>
      let b = bpm t; cur = node_at b node; sib = node_at b neighbor_node in
      case (if IsLeafPage cur then
              (case leaf_MoveAllTo cur sib of
                 (cur1, sib1) \<Rightarrow>
                   Inr (update_two node neighbor_node
                          (cur1, sib1\<lparr>GetNextPageId := GetNextPageId cur1\<rparr>) b))
            else
              ebind (KeyAt (node_at b parent) index)
                (\<lambda>middle_key. ebind (internal_MoveAllTo middle_key cur sib)
                   (\<lambda>xy. reparent (GetPageId sib) (map snd (internal_array cur))
                            (update_two node neighbor_node xy b)))) of
        Inl e \<Rightarrow> Some (Inl e)
      | Inr b1 \<Rightarrow>
          let txn1 = AddIntoDeletedPageSet (GetPageId (node_at b1 node)) txn in
          (case internal_Remove index (node_at b1 parent) of
             Inl e \<Rightarrow> Some (Inl e)
           | Inr p1 \<Rightarrow>
               let b2 = update_node parent (\<lambda>_. p1) b1 in
               if GetSize (node_at b2 parent) < GetMinSize (node_at b2 parent)
               then cor parent (t\<lparr>bpm := b2\<rparr>, txn1)
               else Some (Inr (False, t\<lparr>bpm := b2\<rparr>, txn1))))"

definition fetch_wlatch ::
    "int \<Rightarrow> ('d::zero) BufferPoolManager \<Rightarrow> error + (nat \<times> 'd BufferPoolManager)" where
  "fetch_wlatch pid b = ebind (bpm_fetch pid b) (\<lambda>(page, b1). ebind (WLatch page b1) (\<lambda>b2. Inr (page, b2)))"

definition wunlatch_unpin ::
    "nat \<Rightarrow> int \<Rightarrow> bool \<Rightarrow> 'd BufferPoolManager \<Rightarrow> error + 'd BufferPoolManager" where
  "wunlatch_unpin page pid dirty b = ebind (WUnlatch page b) (bpm_unpin pid dirty)"

text \<open>
  The parts of \<open>CoalesceOrRedistribute\<close>, in the order of the source: the attempt to
  coalesce with a sibling (left: the node goes into the sibling; right: the sibling goes
  into the node), and the two redistributions.  The result of \<open>Coalesce\<close> is dropped by
  the source.  \<open>try_coalesce\<close> returns \<open>None\<close> inside when the sibling was released
  without coalescing.
\<close>

definition try_coalesce ::
    "(nat \<Rightarrow> ('k, 'v) tstate \<Rightarrow> (error + (bool \<times> ('k, 'v) tstate)) option) \<Rightarrow>
     bool \<Rightarrow> nat \<Rightarrow> nat \<Rightarrow> int \<Rightarrow> int \<Rightarrow> int \<Rightarrow> ('k, 'v) tstate \<Rightarrow>
     (error + (('k, 'v) tstate) option \<times> ('k, 'v) tstate) option" where
  "try_coalesce cor left node parent parent_id sib_index index s =
     (case s of (t, txn) \<Rightarrow>
      case ebind (ValueAt (node_at (bpm t) parent) sib_index)
             (\<lambda>sib_id. ebind (fetch_wlatch sib_id (bpm t)) (\<lambda>(page, b1). Inr (sib_id, page, b1))) of
        Inl e \<Rightarrow> Some (Inl e)
      | Inr (sib_id, page, b1) \<Rightarrow>
          if IsCoalesce (node_at b1 node) (node_at b1 page) then
            (case (if left then Coalesce cor page node parent index (t\<lparr>bpm := b1\<rparr>, txn)
                   else Coalesce cor node page parent index (t\<lparr>bpm := b1\<rparr>, txn)) of
               None \<Rightarrow> None
             | Some (Inl e) \<Rightarrow> Some (Inl e)
             | Some (Inr (flag, t2, txn2)) \<Rightarrow>
                 Some (ebind (wunlatch_unpin page sib_id True (bpm t2))
                         (\<lambda>b3. ebind (bpm_unpin parent_id True b3)
                            (\<lambda>b4. Inr (Some (t2\<lparr>bpm := b4\<rparr>, txn2), (t2\<lparr>bpm := b4\<rparr>, txn2))))))
          else
            Some (ebind (wunlatch_unpin page sib_id False b1)
                    (\<lambda>b2. Inr (None, (t\<lparr>bpm := b2\<rparr>, txn)))))"

definition redistribute_left ::
    "nat \<Rightarrow> nat \<Rightarrow> int \<Rightarrow> ('k, 'v) PageData BufferPoolManager \<Rightarrow>
     error + ('k, 'v) PageData BufferPoolManager" where
  "redistribute_left node parent index b =
     ebind (ValueAt (node_at b parent) (index - 1))
       (\<lambda>left_sib_id. ebind (fetch_wlatch left_sib_id b)
          (\<lambda>(page, b1).
             ebind
               (if IsLeafPage (node_at b1 node) then
                  ebind (leaf_KeyAt (node_at b1 page) (GetSize (node_at b1 page) - 1))
                    (\<lambda>key. ebind (SetKeyAt index key (node_at b1 parent))
                       (\<lambda>p1. Redistribute page node 1 (update_node parent (\<lambda>_. p1) b1)))
                else
                  ebind (KeyAt (node_at b1 parent) index)
                    (\<lambda>middle_key. ebind (SetKeyAt 0 middle_key (node_at b1 node))
                       (\<lambda>c1. let b2 = update_node node (\<lambda>_. c1) b1 in
                          ebind (KeyAt (node_at b2 page) (GetSize (node_at b2 page) - 1))
                            (\<lambda>key. ebind (SetKeyAt index key (node_at b2 parent))
                               (\<lambda>p1. Redistribute page node 1 (update_node parent (\<lambda>_. p1) b2))))))
               (wunlatch_unpin page left_sib_id True)))"

definition redistribute_right ::
    "nat \<Rightarrow> nat \<Rightarrow> int \<Rightarrow> ('k, 'v) PageData BufferPoolManager \<Rightarrow>
     error + ('k, 'v) PageData BufferPoolManager" where
  "redistribute_right node parent right_sib_index b =
     ebind (ValueAt (node_at b parent) right_sib_index)
       (\<lambda>right_sib_id. ebind (fetch_wlatch right_sib_id b)
          (\<lambda>(page, b1).
             ebind
               (if IsLeafPage (node_at b1 node) then
                  ebind (leaf_KeyAt (node_at b1 page) 1)
                    (\<lambda>key. ebind (SetKeyAt right_sib_index key (node_at b1 parent))
                       (\<lambda>p1. Redistribute page node 0 (update_node parent (\<lambda>_. p1) b1)))
                else
                  ebind (KeyAt (node_at b1 parent) right_sib_index)
                    (\<lambda>middle_key. ebind (SetKeyAt 0 middle_key (node_at b1 page))
                       (\<lambda>s1. let b2 = update_node page (\<lambda>_. s1) b1 in
                          ebind (KeyAt (node_at b2 page) 1)
                            (\<lambda>key. ebind (SetKeyAt right_sib_index key (node_at b2 parent))
                               (\<lambda>p1. Redistribute page node 0 (update_node parent (\<lambda>_. p1) b2))))))
               (wunlatch_unpin page right_sib_index True)))"

definition CoalesceOrRedistribute_body ::
    "(nat \<Rightarrow> ('k, 'v) tstate \<Rightarrow> (error + (bool \<times> ('k, 'v) tstate)) option) \<Rightarrow>
     nat \<Rightarrow> ('k, 'v) tstate \<Rightarrow> (error + (bool \<times> ('k, 'v) tstate)) option" where
  "CoalesceOrRedistribute_body cor node s =
     (case s of (t, txn) \<Rightarrow>
      let bptp = node_at (bpm t) node in
      if IsRootPage bptp then
        Some (ebind (AdjustRoot node t)
                (\<lambda>(flag, t1). Inr (flag, t1,
                    if flag then AddIntoDeletedPageSet (GetPageId (node_at (bpm t1) node)) txn
                    else txn)))
      else
        let parent_id = GetParentPageId bptp in
        case bpm_fetch parent_id (bpm t) of
          Inl e \<Rightarrow> Some (Inl e)
        | Inr (parent, b0) \<Rightarrow>
            let index = ValueIndex (node_at b0 parent) (GetPageId (node_at b0 node));
                left_sib_index = index - 1;
                right_sib_index = index + 1
            in
            case (if left_sib_index \<ge> 0
                  then try_coalesce cor True node parent parent_id left_sib_index index (t\<lparr>bpm := b0\<rparr>, txn)
                  else Some (Inr (None, (t\<lparr>bpm := b0\<rparr>, txn)))) of
              None \<Rightarrow> None
            | Some (Inl e) \<Rightarrow> Some (Inl e)
            | Some (Inr (Some done, _)) \<Rightarrow> Some (Inr (True, done))
            | Some (Inr (None, s1)) \<Rightarrow>
                (case (if right_sib_index < GetSize (node_at (bpm (fst s1)) parent)
                       then try_coalesce cor False node parent parent_id right_sib_index right_sib_index s1
                       else Some (Inr (None, s1))) of
                   None \<Rightarrow> None
                 | Some (Inl e) \<Rightarrow> Some (Inl e)
                 | Some (Inr (Some done, _)) \<Rightarrow> Some (Inr (True, done))
                 | Some (Inr (None, (t2, txn2))) \<Rightarrow>
                     Some (ebind (if left_sib_index \<ge> 0
                                  then redistribute_left node parent index (bpm t2)
                                  else redistribute_right node parent right_sib_index (bpm t2))
                             (\<lambda>b3. ebind (bpm_unpin parent_id True b3)
                                (\<lambda>b4. Inr (False, t2\<lparr>bpm := b4\<rparr>, txn2))))))"

primrec CoalesceOrRedistribute ::
    "nat \<Rightarrow> nat \<Rightarrow> ('k, 'v) tstate \<Rightarrow> (error + (bool \<times> ('k, 'v) tstate)) option" where
  "CoalesceOrRedistribute 0 = (\<lambda>node s. None)"
| "CoalesceOrRedistribute (Suc fuel) = CoalesceOrRedistribute_body (CoalesceOrRedistribute fuel)"

text \<open>\<open>Remove\<close>.\<close>

definition Remove ::
    "nat \<Rightarrow> ('k::linorder) \<Rightarrow> ('k, 'v) tstate \<Rightarrow> (error + ('k, 'v) tstate) option" where
  "Remove fuel key s =
     (case s of (t, txn) \<Rightarrow>
      case ebind (bpm_fetch (guard_page_id t) (bpm t))
             (\<lambda>(page, b). ebind (WLatch page b) (\<lambda>b1. Inr (page, b1))) of
        Inl e \<Rightarrow> Some (Inl e)
      | Inr (page, b1) \<Rightarrow>
          if IsEmpty t then
            Some (ebind (WUnlatch page b1) (\<lambda>b2. Inr (t\<lparr>bpm := b2\<rparr>, txn)))
          else
            (case FindLeafPageWithLock fuel key DELETE False (t\<lparr>bpm := b1\<rparr>) (AddIntoPageSet page txn) of
               None \<Rightarrow> None
             | Some (Inl e) \<Rightarrow> Some (Inl e)
             | Some (Inr (leaf, t1, txn1)) \<Rightarrow>
                 let old_size = GetSize (node_at (bpm t1) leaf);
                     b2 = update_node leaf (RemoveAndDeleteRecord key) (bpm t1);
                     new_size = GetSize (node_at b2 leaf)
                 in
                 if old_size = new_size then
                   Some (ebind (ReleaseAndUnpin DELETE b2 txn1) (\<lambda>(b3, txn3). Inr (t1\<lparr>bpm := b3\<rparr>, txn3)))
                 else
                   (case (if GetSize (node_at b2 leaf) < GetMinSize (node_at b2 leaf)
                          then map_option (map_sum id snd)
                                 (CoalesceOrRedistribute fuel leaf (t1\<lparr>bpm := b2\<rparr>, txn1))
                          else Some (Inr (t1\<lparr>bpm := b2\<rparr>, txn1))) of
                      None \<Rightarrow> None
                    | Some (Inl e) \<Rightarrow> Some (Inl e)
                    | Some (Inr (t4, txn4)) \<Rightarrow>
                        Some (ebind (ReleaseAndUnpin DELETE (bpm t4) txn4)
                                (\<lambda>(b5, txn5). Inr (t4\<lparr>bpm := b5\<rparr>, txn5))))))"

section \<open>The pool as a memory of pages\<close>

text \<open>
  The content of a page is the data of its frame while it is resident and what the disk
  holds otherwise.  A page is held through a frame when it is resident there with a
  positive pin count.  The pool is in order when the structural invariant holds (for
  some bound on the page ids in use) and every resident frame that is unpinned and clean
  agrees with the disk.  A held page
  may be unpinned clean when it is dirty already, pinned more than once, or in
  agreement with the disk.
\<close>

definition mem :: "'d BufferPoolManager \<Rightarrow> int \<Rightarrow> 'd" where
  "mem b p = (case page_table b p of
                Some f \<Rightarrow> data (pages b ! f)
              | None \<Rightarrow> ReadPage p (disk_manager b))"

definition held :: "'d BufferPoolManager \<Rightarrow> int \<Rightarrow> nat \<Rightarrow> bool" where
  "held b p f \<longleftrightarrow> page_table b p = Some f \<and> 0 < pin_count (pages b ! f)"

definition pool_ok :: "'d BufferPoolManager \<Rightarrow> bool" where
  "pool_ok b \<longleftrightarrow>
     (\<exists>n. struct_inv (map page_id (pages b)) (map pin_count (pages b)) (page_table b)
            (free_list b) (unpin_list (replacer b)) n) \<and>
     max_num_pages (replacer b) = length (pages b) \<and>
     (\<forall>p f. page_table b p = Some f \<and> \<not> is_dirty (pages b ! f) \<and> pin_count (pages b ! f) = 0 \<longrightarrow>
        data (pages b ! f) = ReadPage p (disk_manager b))"



text \<open>
  The running operation holds exactly the frames \<open>ps\<close>: each is resident, pinned once
  and latched once in the mode of the operation; every other frame is unpinned and
  unlatched.
\<close>

definition only_held :: "OpType \<Rightarrow> 'd BufferPoolManager \<Rightarrow> nat list \<Rightarrow> bool" where
  "only_held op b ps \<longleftrightarrow>
     distinct ps \<and>
     (\<forall>f \<in> set ps.
        f < length (pages b) \<and> page_table b (page_id (pages b ! f)) = Some f \<and>
        pin_count (pages b ! f) = 1 \<and>
        latch (pages b ! f) = (if op = READ then \<lparr>readers = 1, writer = False\<rparr>
                               else \<lparr>readers = 0, writer = True\<rparr>)) \<and>
     (\<forall>f < length (pages b). f \<notin> set ps \<longrightarrow>
        pin_count (pages b ! f) = 0 \<and> latch (pages b ! f) = \<lparr>readers = 0, writer = False\<rparr>)"






section \<open>Theorems: the replacer\<close>

lemma scenario_S1_state:
  "replacer_run scenario_S1 (new_LRUReplacer 7) =
     Inr \<lparr>max_num_pages = 7, unpin_list = [4, 1, 6, 5, 3, 2]\<rparr>"
  by (simp add: scenario_S1_def new_LRUReplacer_def Unpin_def Pin_def)

lemma scenario_S1_victims:
  "victims 4 \<lparr>max_num_pages = 7, unpin_list = [4, 1, 6, 5, 3, 2]\<rparr> =
     [Some 2, Some 3, Some 5, Some 6]"
  by (simp add: Victim_def numeral_eq_Suc)

text \<open>
  C3, as stated, fails: after the calls of scenario S1 the four victims are
  2, 3, 5, 6 and not 5, 6, 2, 3.  The general part fails too: on a replacer that holds
  as many frames as its capacity, Unpin of an absent frame inserts nothing and fails
  the assertion.
\<close>

theorem C3_counterexample:
  "\<not> (\<exists>r. replacer_run scenario_S1 (new_LRUReplacer 7) = Inr r \<and>
          victims 4 r = [Some 5, Some 6, Some 2, Some 3]) \<and>
   3 \<notin> set (unpin_list \<lparr>max_num_pages = 2, unpin_list = [2, 1]\<rparr>) \<and>
   Unpin 3 \<lparr>max_num_pages = 2, unpin_list = [2, 1]\<rparr> = Inl AssertionFailure"
  using scenario_S1_state scenario_S1_victims by (simp add: Unpin_def)

text \<open>
  C3 (amended): on a replacer of capacity 7, after Unpin(1..6), Pin(1), Pin(4),
  Unpin(1), Unpin(4), four calls of Victim yield 2, 3, 5, 6 in that order.  In general,
  Unpin of an absent frame on a replacer that holds fewer frames than its capacity puts
  the frame at the front of the list, the most-recently-unpinned end, and leaves the
  rest as it was; at capacity it fails the assertion; Unpin of a present frame changes
  nothing; Victim on a non-empty list removes and returns its last element, the
  least-recently-unpinned end, and on an empty list returns nothing.
\<close>

theorem C3_lru_order:
  "(\<exists>r. replacer_run scenario_S1 (new_LRUReplacer 7) = Inr r \<and>
        victims 4 r = [Some 2, Some 3, Some 5, Some 6]) \<and>
   (f \<notin> set (unpin_list r0) \<and> length (unpin_list r0) < max_num_pages r0 \<longrightarrow>
      Unpin f r0 = Inr (r0\<lparr>unpin_list := f # unpin_list r0\<rparr>)) \<and>
   (f \<notin> set (unpin_list r0) \<and> \<not> length (unpin_list r0) < max_num_pages r0 \<longrightarrow>
      Unpin f r0 = Inl AssertionFailure) \<and>
   (f \<in> set (unpin_list r0) \<longrightarrow> Unpin f r0 = Inr r0) \<and>
   (unpin_list r0 = xs @ [v] \<longrightarrow> Victim r0 = (Some v, r0\<lparr>unpin_list := xs\<rparr>)) \<and>
   (unpin_list r0 = [] \<longrightarrow> Victim r0 = (None, r0))"
  using scenario_S1_state scenario_S1_victims by (simp add: Victim_def Unpin_def)

theorem C3_lru_order_witness:
  "Unpin 3 \<lparr>max_num_pages = 7, unpin_list = [2, 1]\<rparr>
     = Inr \<lparr>max_num_pages = 7, unpin_list = [3, 2, 1]\<rparr> \<and>
   Unpin 3 \<lparr>max_num_pages = 2, unpin_list = [2, 1]\<rparr> = Inl AssertionFailure \<and>
   Unpin 2 \<lparr>max_num_pages = 7, unpin_list = [2, 1]\<rparr>
     = Inr \<lparr>max_num_pages = 7, unpin_list = [2, 1]\<rparr> \<and>
   Victim \<lparr>max_num_pages = 7, unpin_list = [2, 1]\<rparr>
     = (Some 1, \<lparr>max_num_pages = 7, unpin_list = [2]\<rparr>) \<and>
   Victim \<lparr>max_num_pages = 7, unpin_list = []\<rparr>
     = (None, \<lparr>max_num_pages = 7, unpin_list = []\<rparr>)"
  using C3_lru_order [of 3 "\<lparr>max_num_pages = 7, unpin_list = [2, 1]\<rparr>" "[2]" 1]
        C3_lru_order [of 3 "\<lparr>max_num_pages = 2, unpin_list = [2, 1]\<rparr>" "[2]" 1]
        C3_lru_order [of 2 "\<lparr>max_num_pages = 7, unpin_list = [2, 1]\<rparr>" "[2]" 1]
        C3_lru_order [of 2 "\<lparr>max_num_pages = 7, unpin_list = []\<rparr>" "[2]" 1]
  by simp

section \<open>Theorems: the structural invariant of the pool\<close>

lemma struct_alloc:
  "struct_inv pids pins pt free unpin nxt \<Longrightarrow> struct_inv pids pins pt free unpin (nxt + 1)"
  unfolding struct_inv_def by fastforce


lemma struct_invD:
  assumes "struct_inv pids pins pt free unpin nxt"
  shows "length pins = length pids" "distinct free" "distinct unpin"
    "\<And>f. f \<in> set free \<Longrightarrow> f < length pids \<and> pids ! f = INVALID_PAGE_ID \<and> pt (pids ! f) \<noteq> Some f \<and> f \<notin> set unpin"
    "\<And>f. f \<in> set unpin \<Longrightarrow> f < length pids \<and> pt (pids ! f) = Some f \<and> pins ! f = 0"
    "\<And>p f. pt p = Some f \<Longrightarrow> f < length pids \<and> pids ! f = p \<and> p < nxt \<and> 0 \<le> pins ! f \<and> (pins ! f = 0 \<longrightarrow> f \<in> set unpin)"
    "\<And>f. f < length pids \<Longrightarrow> f \<in> set free \<or> pt (pids ! f) = Some f"
  using assms unfolding struct_inv_def by blast+

lemma struct_invI:
  assumes "length pins = length pids" "distinct free" "distinct unpin"
    "\<And>f. f \<in> set free \<Longrightarrow> f < length pids \<and> pids ! f = INVALID_PAGE_ID \<and> pt (pids ! f) \<noteq> Some f \<and> f \<notin> set unpin"
    "\<And>f. f \<in> set unpin \<Longrightarrow> f < length pids \<and> pt (pids ! f) = Some f \<and> pins ! f = 0"
    "\<And>p f. pt p = Some f \<Longrightarrow> f < length pids \<and> pids ! f = p \<and> p < nxt \<and> 0 \<le> pins ! f \<and> (pins ! f = 0 \<longrightarrow> f \<in> set unpin)"
    "\<And>f. f < length pids \<Longrightarrow> f \<in> set free \<or> pt (pids ! f) = Some f"
  shows "struct_inv pids pins pt free unpin nxt"
  unfolding struct_inv_def using assms by blast


lemma struct_fetch_hit:
  assumes inv: "struct_inv pids pins pt free unpin nxt" and hit: "pt p = Some f"
  shows "struct_inv pids (pins[f := pins ! f + 1]) pt free
           (if pins ! f = 0 then remove1 f unpin else unpin) nxt"
proof (rule struct_invI)
  note D = struct_invD [OF inv]
  from D(6) [OF hit] have f: "f < length pids" "pids ! f = p" "0 \<le> pins ! f" by auto
  show "length (pins[f := pins ! f + 1]) = length pids" using D(1) by simp
  show "distinct free" by (rule D(2))
  show "distinct (if pins ! f = 0 then remove1 f unpin else unpin)" using D(3) by simp
  show "g \<in> set free \<Longrightarrow> g < length pids \<and> pids ! g = INVALID_PAGE_ID \<and> pt (pids ! g) \<noteq> Some g \<and>
          g \<notin> set (if pins ! f = 0 then remove1 f unpin else unpin)" for g
    using D(4) [of g] D(3) by (auto dest: notin_set_remove1)
  show "g \<in> set (if pins ! f = 0 then remove1 f unpin else unpin) \<Longrightarrow>
          g < length pids \<and> pt (pids ! g) = Some g \<and> pins[f := pins ! f + 1] ! g = 0" for g
    using D(5) [of g] D(3) D(1) f by (auto simp: nth_list_update split: if_splits)
  show "pt q = Some g \<Longrightarrow> g < length pids \<and> pids ! g = q \<and> q < nxt \<and> 0 \<le> pins[f := pins ! f + 1] ! g \<and>
          (pins[f := pins ! f + 1] ! g = 0 \<longrightarrow> g \<in> set (if pins ! f = 0 then remove1 f unpin else unpin))" for q g
    using D(6) [of q g] D(3) D(1) f by (auto simp: nth_list_update)
  show "g < length pids \<Longrightarrow> g \<in> set free \<or> pt (pids ! g) = Some g" for g
    using D(7) [of g] by simp
qed


lemma last_notin_butlast: "distinct xs \<Longrightarrow> xs \<noteq> [] \<Longrightarrow> last xs \<notin> set (butlast xs)"
  by (induction xs) (auto dest: in_set_butlastD)

lemma in_tl_iff: "distinct xs \<Longrightarrow> xs \<noteq> [] \<Longrightarrow> x \<in> set (tl xs) \<longleftrightarrow> x \<in> set xs \<and> x \<noteq> hd xs"
  by (cases xs) auto

lemma in_butlast_iff:
  "distinct xs \<Longrightarrow> xs \<noteq> [] \<Longrightarrow> x \<in> set (butlast xs) \<longleftrightarrow> x \<in> set xs \<and> x \<noteq> last xs"
  by (induction xs) (auto dest: in_set_butlastD)

lemma struct_init_free:
  assumes inv: "struct_inv pids pins pt free unpin nxt" and ne: "free \<noteq> []"
    and fresh: "pt pid = None" and alloc: "pid < nxt"
  shows "struct_inv (pids[hd free := pid]) (pins[hd free := 1]) (pt(pid \<mapsto> hd free))
           (tl free) unpin nxt"
proof (rule struct_invI)
  note D = struct_invD [OF inv]
  define f where "f = hd free"
  have fin: "f \<in> set free" using ne by (simp add: f_def)
  from D(4) [OF fin] have f: "f < length pids" "pt (pids ! f) \<noteq> Some f" "f \<notin> set unpin" by auto
  have tl: "g \<in> set (tl free) \<longleftrightarrow> g \<in> set free \<and> g \<noteq> f" for g
    using in_tl_iff [OF D(2) ne] by (simp add: f_def)
  show "length (pins[hd free := 1]) = length (pids[hd free := pid])" using D(1) by simp
  show "distinct (tl free)" using D(2) by (rule distinct_tl)
  show "distinct unpin" by (rule D(3))
  show "g \<in> set (tl free) \<Longrightarrow> g < length (pids[hd free := pid]) \<and>
          pids[hd free := pid] ! g = INVALID_PAGE_ID \<and>
          (pt(pid \<mapsto> hd free)) (pids[hd free := pid] ! g) \<noteq> Some g \<and> g \<notin> set unpin" for g
    using D(4) [of g] tl [of g] f by (auto simp: nth_list_update f_def [symmetric])
  show "g \<in> set unpin \<Longrightarrow> g < length (pids[hd free := pid]) \<and>
          (pt(pid \<mapsto> hd free)) (pids[hd free := pid] ! g) = Some g \<and> pins[hd free := 1] ! g = 0" for g
    using D(5) [of g] f fresh D(1) by (auto simp: nth_list_update f_def [symmetric])
  show "(pt(pid \<mapsto> hd free)) q = Some g \<Longrightarrow> g < length (pids[hd free := pid]) \<and>
          pids[hd free := pid] ! g = q \<and> q < nxt \<and> 0 \<le> pins[hd free := 1] ! g \<and>
          (pins[hd free := 1] ! g = 0 \<longrightarrow> g \<in> set unpin)" for q g
    using D(6) [of q g] f alloc D(1)
    by (auto simp: nth_list_update f_def [symmetric] split: if_splits)
  show "g < length (pids[hd free := pid]) \<Longrightarrow>
          g \<in> set (tl free) \<or> (pt(pid \<mapsto> hd free)) (pids[hd free := pid] ! g) = Some g" for g
    using D(7) [of g] tl [of g] f fresh by (auto simp: nth_list_update f_def [symmetric])
qed


lemma struct_init_victim:
  assumes inv: "struct_inv pids pins pt free unpin nxt" and ne: "unpin \<noteq> []"
    and fresh: "pt pid = None" and alloc: "pid < nxt"
  shows "struct_inv (pids[last unpin := pid]) (pins[last unpin := 1])
           ((pt(pids ! last unpin := None))(pid \<mapsto> last unpin)) free (butlast unpin) nxt"
proof (rule struct_invI)
  note D = struct_invD [OF inv]
  define f where "f = last unpin"
  define q0 where "q0 = pids ! f"
  have q0: "pids ! f = q0" by (simp add: q0_def)
  have fin: "f \<in> set unpin" using ne by (simp add: f_def)
  from D(5) [OF fin] have f: "f < length pids" "pt q0 = Some f" by (auto simp: q0_def)
  have ffree: "f \<notin> set free" using D(4) [of f] f by (auto simp: q0_def)
  have bl: "g \<in> set (butlast unpin) \<longleftrightarrow> g \<in> set unpin \<and> g \<noteq> f" for g
    using in_butlast_iff [OF D(3) ne] by (simp add: f_def)
  have other: "g \<noteq> f \<Longrightarrow> pt (pids ! g) = Some g \<Longrightarrow> pids ! g \<noteq> q0 \<and> pids ! g \<noteq> pid" for g
    using f fresh by auto
  show "length (pins[last unpin := 1]) = length (pids[last unpin := pid])" using D(1) by simp
  show "distinct free" by (rule D(2))
  show "distinct (butlast unpin)" using D(3) by (rule distinct_butlast)
  show "g \<in> set free \<Longrightarrow> g < length (pids[last unpin := pid]) \<and>
          pids[last unpin := pid] ! g = INVALID_PAGE_ID \<and>
          ((pt(pids ! last unpin := None))(pid \<mapsto> last unpin)) (pids[last unpin := pid] ! g) \<noteq> Some g \<and>
          g \<notin> set (butlast unpin)" for g
    using D(4) [of g] bl [of g] f ffree
    by (auto simp: nth_list_update f_def [symmetric] q0_def [symmetric])
  show "g \<in> set (butlast unpin) \<Longrightarrow> g < length (pids[last unpin := pid]) \<and>
          ((pt(pids ! last unpin := None))(pid \<mapsto> last unpin)) (pids[last unpin := pid] ! g) = Some g \<and>
          pins[last unpin := 1] ! g = 0" for g
    using D(5) [of g] bl [of g] other [of g] f D(1)
    by (auto simp: nth_list_update f_def [symmetric] q0_def [symmetric])
  show "((pt(pids ! last unpin := None))(pid \<mapsto> last unpin)) q = Some g \<Longrightarrow>
          g < length (pids[last unpin := pid]) \<and>
          pids[last unpin := pid] ! g = q \<and> q < nxt \<and> 0 \<le> pins[last unpin := 1] ! g \<and>
          (pins[last unpin := 1] ! g = 0 \<longrightarrow> g \<in> set (butlast unpin))" for q g
    using D(6) [of q g] bl [of g] f alloc D(1) q0
    by (auto simp: nth_list_update f_def [symmetric] split: if_splits)
  show "g < length (pids[last unpin := pid]) \<Longrightarrow>
          g \<in> set free \<or>
          ((pt(pids ! last unpin := None))(pid \<mapsto> last unpin)) (pids[last unpin := pid] ! g) = Some g" for g
  proof (cases "g = f")
    case True
    then show ?thesis using f by (simp add: f_def [symmetric])
  next
    case False
    assume "g < length (pids[last unpin := pid])"
    then show ?thesis using D(7) [of g] other [of g] False
      by (auto simp: nth_list_update f_def [symmetric] q0_def [symmetric])
  qed
qed

lemma struct_unpin:
  assumes inv: "struct_inv pids pins pt free unpin nxt" and hit: "pt p = Some f"
    and pinned: "0 < pins ! f"
  shows "struct_inv pids (pins[f := pins ! f - 1]) pt free
           (if pins ! f - 1 = 0 then f # unpin else unpin) nxt"
    and "f \<notin> set unpin" and "length unpin < length pids"
proof -
  note D = struct_invD [OF inv]
  from D(6) [OF hit] have f: "f < length pids" "pids ! f = p" by auto
  show nin: "f \<notin> set unpin" using D(5) [of f] pinned by auto
  have "set unpin \<subseteq> {..<length pids} - {f}" using D(5) nin by auto
  then have "card (set unpin) \<le> card ({..<length pids} - {f})"
    by (intro card_mono) auto
  also have "\<dots> = length pids - 1" using f by simp
  finally show "length unpin < length pids" using D(3) f
    by (simp add: distinct_card)
  show "struct_inv pids (pins[f := pins ! f - 1]) pt free
           (if pins ! f - 1 = 0 then f # unpin else unpin) nxt"
  proof (rule struct_invI)
    show "length (pins[f := pins ! f - 1]) = length pids" using D(1) by simp
    show "distinct free" by (rule D(2))
    show "distinct (if pins ! f - 1 = 0 then f # unpin else unpin)" using D(3) nin by simp
    show "g \<in> set free \<Longrightarrow> g < length pids \<and> pids ! g = INVALID_PAGE_ID \<and> pt (pids ! g) \<noteq> Some g \<and>
            g \<notin> set (if pins ! f - 1 = 0 then f # unpin else unpin)" for g
      using D(4) [of g] f hit by auto
    show "g \<in> set (if pins ! f - 1 = 0 then f # unpin else unpin) \<Longrightarrow>
            g < length pids \<and> pt (pids ! g) = Some g \<and> pins[f := pins ! f - 1] ! g = 0" for g
      using D(5) [of g] D(1) f hit nin by (auto simp: nth_list_update split: if_splits)
    show "pt q = Some g \<Longrightarrow> g < length pids \<and> pids ! g = q \<and> q < nxt \<and> 0 \<le> pins[f := pins ! f - 1] ! g \<and>
            (pins[f := pins ! f - 1] ! g = 0 \<longrightarrow> g \<in> set (if pins ! f - 1 = 0 then f # unpin else unpin))" for q g
      using D(6) [of q g] D(1) f pinned by (auto simp: nth_list_update)
    show "g < length pids \<Longrightarrow> g \<in> set free \<or> pt (pids ! g) = Some g" for g
      using D(7) [of g] by simp
  qed
qed

lemma struct_delete:
  assumes inv: "struct_inv pids pins pt free unpin nxt" and hit: "pt p = Some f"
    and unpinned: "\<not> 0 < pins ! f"
  shows "struct_inv (pids[f := INVALID_PAGE_ID]) (pins[f := 0]) (pt(p := None)) (free @ [f])
           (remove1 f unpin) nxt"
    and "f \<in> set unpin"
proof -
  note D = struct_invD [OF inv]
  from D(6) [OF hit] unpinned have f: "f < length pids" "pids ! f = p" "pins ! f = 0" "f \<in> set unpin"
    by auto
  show "f \<in> set unpin" by (rule f(4))
  have ffree: "f \<notin> set free" using D(4) [of f] f hit by auto
  have other: "g \<noteq> f \<Longrightarrow> pt (pids ! g) = Some g \<Longrightarrow> pids ! g \<noteq> p" for g
    using hit by auto
  show "struct_inv (pids[f := INVALID_PAGE_ID]) (pins[f := 0]) (pt(p := None)) (free @ [f])
           (remove1 f unpin) nxt"
  proof (rule struct_invI)
    show "length (pins[f := 0]) = length (pids[f := INVALID_PAGE_ID])" using D(1) by simp
    show "distinct (free @ [f])" using D(2) ffree by simp
    show "distinct (remove1 f unpin)" using D(3) by simp
    show "g \<in> set (free @ [f]) \<Longrightarrow> g < length (pids[f := INVALID_PAGE_ID]) \<and>
            pids[f := INVALID_PAGE_ID] ! g = INVALID_PAGE_ID \<and>
            (pt(p := None)) (pids[f := INVALID_PAGE_ID] ! g) \<noteq> Some g \<and> g \<notin> set (remove1 f unpin)" for g
      using D(4) [of g] D(6) [of INVALID_PAGE_ID g] D(3) f
      by (auto simp: nth_list_update)
    show "g \<in> set (remove1 f unpin) \<Longrightarrow> g < length (pids[f := INVALID_PAGE_ID]) \<and>
            (pt(p := None)) (pids[f := INVALID_PAGE_ID] ! g) = Some g \<and> pins[f := 0] ! g = 0" for g
      using D(5) [of g] D(1) D(3) other [of g] f by (auto simp: nth_list_update)
    show "(pt(p := None)) q = Some g \<Longrightarrow> g < length (pids[f := INVALID_PAGE_ID]) \<and>
            pids[f := INVALID_PAGE_ID] ! g = q \<and> q < nxt \<and> 0 \<le> pins[f := 0] ! g \<and>
            (pins[f := 0] ! g = 0 \<longrightarrow> g \<in> set (remove1 f unpin))" for q g
      using D(6) [of q g] D(1) D(3) f by (auto simp: nth_list_update split: if_splits)
    show "g < length (pids[f := INVALID_PAGE_ID]) \<Longrightarrow>
            g \<in> set (free @ [f]) \<or> (pt(p := None)) (pids[f := INVALID_PAGE_ID] ! g) = Some g" for g
      using D(7) [of g] other [of g] f by (auto simp: nth_list_update)
  qed
qed

section \<open>Theorems: the buffer pool\<close>

lemma unpin_list_Pin [simp]: "unpin_list (Pin f r) = remove1 f (unpin_list r)"
  by (simp add: Pin_def remove1_idem)

lemma max_num_pages_Pin [simp]: "max_num_pages (Pin f r) = max_num_pages r"
  by (simp add: Pin_def)

lemma map_update_same: "f < length xs \<Longrightarrow> (map g xs)[f := g (xs ! f)] = map g xs"
  by (simp add: list_update_same_conv)

lemma InitNewPage_free_eq:
  assumes "free_list s \<noteq> []" "hd (free_list s) < length (pages s)"
  shows "InitNewPage pid s =
     Inr (hd (free_list s),
          s\<lparr>free_list := tl (free_list s),
            pages := (pages s)[hd (free_list s) :=
               (pages s ! hd (free_list s))\<lparr>data := 0, is_dirty := False, page_id := pid, pin_count := 1\<rparr>],
            page_table := (page_table s)(pid \<mapsto> hd (free_list s))\<rparr>)"
  using assms by (simp add: InitNewPage_def ResetMemory_def)

lemma InitNewPage_victim_eq:
  assumes "free_list s = []" "unpin_list (replacer s) \<noteq> []"
    "last (unpin_list (replacer s)) < length (pages s)"
  shows "InitNewPage pid s =
     Inr (last (unpin_list (replacer s)),
          s\<lparr>replacer := (replacer s)\<lparr>unpin_list := butlast (unpin_list (replacer s))\<rparr>,
            page_table := ((page_table s)(page_id (pages s ! last (unpin_list (replacer s))) := None))
                            (pid \<mapsto> last (unpin_list (replacer s))),
            disk_manager :=
              (if is_dirty (pages s ! last (unpin_list (replacer s)))
               then WritePage (page_id (pages s ! last (unpin_list (replacer s))))
                      (data (pages s ! last (unpin_list (replacer s)))) (disk_manager s)
               else disk_manager s),
            pages := (pages s)[last (unpin_list (replacer s)) :=
               (pages s ! last (unpin_list (replacer s)))\<lparr>data := 0, is_dirty := False, page_id := pid, pin_count := 1\<rparr>]\<rparr>)"
  using assms by (simp add: InitNewPage_def ResetMemory_def Victim_def Let_def)

lemma bpm_invD:
  assumes "bpm_inv s"
  shows "struct_inv (map page_id (pages s)) (map pin_count (pages s)) (page_table s)
           (free_list s) (unpin_list (replacer s)) (next_page_id s)"
    and "max_num_pages (replacer s) = length (pages s)"
  using assms by (simp_all add: bpm_inv_def)

lemma InitNewPage_inv:
  assumes inv: "bpm_inv s" and fresh: "page_table s pid = None" and alloc: "pid < next_page_id s"
    and avail: "free_list s \<noteq> [] \<or> unpin_list (replacer s) \<noteq> []"
  shows "\<exists>f s'. InitNewPage pid s = Inr (f, s') \<and> bpm_inv s' \<and> f < length (pages s') \<and>
           length (pages s') = length (pages s) \<and> next_page_id s' = next_page_id s"
proof (cases "free_list s = []")
  case False
  note S = bpm_invD [OF inv]
  from struct_invD(4) [OF S(1), of "hd (free_list s)"] False
  have f: "hd (free_list s) < length (pages s)" by simp
  show ?thesis
    using struct_init_free [OF S(1) False fresh alloc] S(2) f
    by (simp add: InitNewPage_free_eq [OF False f] bpm_inv_def map_update)
next
  case True
  with avail have ne: "unpin_list (replacer s) \<noteq> []" by simp
  note S = bpm_invD [OF inv]
  from struct_invD(5) [OF S(1), of "last (unpin_list (replacer s))"] ne
  have f: "last (unpin_list (replacer s)) < length (pages s)" by simp
  show ?thesis
    using struct_init_victim [OF S(1) ne fresh alloc] S(2) f
    by (simp add: InitNewPage_victim_eq [OF True ne f] bpm_inv_def map_update)
qed


lemma FetchPageImpl_inv:
  assumes inv: "bpm_inv s" and alloc: "pid < next_page_id s"
  shows "\<exists>r s'. FetchPageImpl pid s = Inr (r, s') \<and> bpm_inv s' \<and>
           length (pages s') = length (pages s) \<and> next_page_id s' = next_page_id s"
proof (cases "page_table s pid")
  case (Some f)
  note S = bpm_invD [OF inv]
  from struct_invD(6) [OF S(1) Some] have f: "f < length (pages s)" by simp
  show ?thesis
    using struct_fetch_hit [OF S(1) Some] S(2) f
    by (auto simp: FetchPageImpl_def Some bpm_inv_def map_update Let_def map_update_same remove1_idem)
next
  case None
  show ?thesis
  proof (cases "free_list s = [] \<and> Size (replacer s) = 0")
    case True
    then show ?thesis using inv by (auto simp: FetchPageImpl_def None)
  next
    case False
    then have "free_list s \<noteq> [] \<or> unpin_list (replacer s) \<noteq> []" by (simp add: Size_def)
    from InitNewPage_inv [OF inv None alloc this] obtain f s1 where
      i: "InitNewPage pid s = Inr (f, s1)" "bpm_inv s1" "f < length (pages s1)"
         "length (pages s1) = length (pages s)" "next_page_id s1 = next_page_id s" by blast
    have "bpm_inv (s1\<lparr>pages := (pages s1)[f := (pages s1 ! f)\<lparr>data := ReadPage pid (disk_manager s1)\<rparr>]\<rparr>)"
      using i(2,3) by (simp add: bpm_inv_def map_update map_update_same)
    then show ?thesis using False i by (auto simp: FetchPageImpl_def None)
  qed
qed

lemma UnpinPageImpl_inv:
  assumes inv: "bpm_inv s"
  shows "\<exists>r s'. UnpinPageImpl pid dirty s = Inr (r, s') \<and> bpm_inv s' \<and>
           length (pages s') = length (pages s) \<and> next_page_id s' = next_page_id s"
proof (cases "page_table s pid")
  case None
  then show ?thesis using inv by (auto simp: UnpinPageImpl_def)
next
  case (Some f)
  note S = bpm_invD [OF inv]
  from struct_invD(6) [OF S(1) Some] have f: "f < length (pages s)" by simp
  show ?thesis
  proof (cases "pin_count (pages s ! f) \<le> 0")
    case True
    then show ?thesis using inv f by (auto simp: UnpinPageImpl_def Some)
  next
    case False
    then have pinned: "0 < map pin_count (pages s) ! f" using f by simp
    note U = struct_unpin [OF S(1) Some pinned]
    show ?thesis
      using U S(2) f False
      by (auto simp: UnpinPageImpl_def Some Let_def Unpin_def bpm_inv_def map_update map_update_same)
  qed
qed

lemma FlushPageImpl_inv:
  assumes inv: "bpm_inv s"
  shows "\<exists>r s'. FlushPageImpl pid s = Inr (r, s') \<and> bpm_inv s' \<and>
           length (pages s') = length (pages s) \<and> next_page_id s' = next_page_id s"
proof (cases "page_table s pid")
  case None
  then show ?thesis using inv by (auto simp: FlushPageImpl_def)
next
  case (Some f)
  note S = bpm_invD [OF inv]
  from struct_invD(6) [OF S(1) Some] have f: "f < length (pages s)" by simp
  show ?thesis
    using inv f
    by (auto simp: FlushPageImpl_def Some Let_def bpm_inv_def map_update map_update_same)
qed

lemma NewPageImpl_inv:
  assumes inv: "bpm_inv s" and range: "next_page_id s < INT32_MAX"
  shows "\<exists>r s'. NewPageImpl s = Inr (r, s') \<and> bpm_inv s' \<and>
           length (pages s') = length (pages s) \<and> next_page_id s \<le> next_page_id s'"
proof (cases "free_list s = [] \<and> Size (replacer s) = 0")
  case True
  then show ?thesis using inv by (auto simp: NewPageImpl_def)
next
  case False
  note S = bpm_invD [OF inv]
  define s0 where "s0 = s\<lparr>next_page_id := next_page_id s + 1\<rparr>"
  have inv0: "bpm_inv s0"
    using struct_alloc [OF S(1)] S(2) by (simp add: bpm_inv_def s0_def)
  have fresh: "page_table s0 (next_page_id s) = None"
  proof (cases "page_table s (next_page_id s)")
    case None then show ?thesis by (simp add: s0_def)
  next
    case (Some g)
    from struct_invD(6) [OF S(1) Some] show ?thesis by simp
  qed
  have alloc: "next_page_id s < next_page_id s0" by (simp add: s0_def)
  have avail: "free_list s0 \<noteq> [] \<or> unpin_list (replacer s0) \<noteq> []"
    using False by (simp add: s0_def Size_def)
  from InitNewPage_inv [OF inv0 fresh alloc avail] obtain f s1 where
    i: "InitNewPage (next_page_id s) s0 = Inr (f, s1)" "bpm_inv s1" "f < length (pages s1)"
       "length (pages s1) = length (pages s0)" "next_page_id s1 = next_page_id s0" by blast
  have "bpm_inv (s1\<lparr>disk_manager := WritePage (page_id (pages s1 ! f)) (data (pages s1 ! f))
                                 (disk_manager s1)\<rparr>)"
    using i(2) by (simp add: bpm_inv_def)
  moreover have "AllocatePage s = (next_page_id s, s0)"
    using range by (simp add: AllocatePage_def s0_def)
  ultimately show ?thesis
    using False i by (auto simp: NewPageImpl_def) (simp_all add: s0_def)
qed

lemma DeletePageImpl_inv:
  assumes inv: "bpm_inv s"
  shows "\<exists>r s'. DeletePageImpl pid s = Inr (r, s') \<and> bpm_inv s' \<and>
           length (pages s') = length (pages s) \<and> next_page_id s' = next_page_id s"
proof (cases "page_table s pid")
  case None
  then show ?thesis using inv by (auto simp: DeletePageImpl_def)
next
  case (Some f)
  note S = bpm_invD [OF inv]
  from struct_invD(6) [OF S(1) Some] have f: "f < length (pages s)" by simp
  show ?thesis
  proof (cases "0 < pin_count (pages s ! f)")
    case True
    then show ?thesis using inv f by (auto simp: DeletePageImpl_def Some)
  next
    case False
    then have unpinned: "\<not> 0 < map pin_count (pages s) ! f" using f by simp
    note U = struct_delete [OF S(1) Some unpinned]
    show ?thesis
      using U S(2) f False
      by (auto simp: DeletePageImpl_def Some Let_def bpm_inv_def map_update
            DeallocatePage_def ResetMemory_def)
  qed
qed


lemma FlushAllPages_body_inv:
  assumes "i < length (pages s)" "bpm_inv s"
  shows "bpm_inv (FlushAllPages_body i s) \<and>
         length (pages (FlushAllPages_body i s)) = length (pages s) \<and>
         next_page_id (FlushAllPages_body i s) = next_page_id s"
  using assms by (simp add: FlushAllPages_body_def Let_def bpm_inv_def map_update map_update_same)

lemma fold_FlushAllPages_body_inv:
  assumes "\<forall>i \<in> set js. i < length (pages s)" "bpm_inv s"
  shows "bpm_inv (fold FlushAllPages_body js s) \<and>
         length (pages (fold FlushAllPages_body js s)) = length (pages s) \<and>
         next_page_id (fold FlushAllPages_body js s) = next_page_id s"
  using assms
proof (induction js arbitrary: s)
  case Nil
  then show ?case by simp
next
  case (Cons j js)
  from Cons.prems FlushAllPages_body_inv [of j s]
  have b: "bpm_inv (FlushAllPages_body j s)"
     "length (pages (FlushAllPages_body j s)) = length (pages s)"
     "next_page_id (FlushAllPages_body j s) = next_page_id s" by simp_all
  from Cons.prems b(2) have "\<forall>i \<in> set js. i < length (pages (FlushAllPages_body j s))" by simp
  from Cons.IH [OF this b(1)] b(2,3) show ?case by simp
qed

lemma FlushAllPagesImpl_inv:
  assumes "bpm_inv s"
  shows "bpm_inv (FlushAllPagesImpl s) \<and> length (pages (FlushAllPagesImpl s)) = length (pages s) \<and>
         next_page_id (FlushAllPagesImpl s) = next_page_id s"
  unfolding FlushAllPagesImpl_def pool_size_def
  by (rule fold_FlushAllPages_body_inv) (use assms in simp_all)

lemma bpm_step_inv:
  assumes inv: "bpm_inv s" and ok: "call_in_range c s"
  shows "\<exists>s'. bpm_step c s = Inr s' \<and> bpm_inv s' \<and> length (pages s') = length (pages s) \<and>
           next_page_id s \<le> next_page_id s'"
proof (cases c)
  case (FetchPage pid)
  with ok have "pid < next_page_id s" by simp
  from FetchPageImpl_inv [OF inv this] show ?thesis by (auto simp: bpm_step_def FetchPage)
next
  case (UnpinPage pid dirty)
  from UnpinPageImpl_inv [OF inv, of pid dirty] show ?thesis by (auto simp: bpm_step_def UnpinPage)
next
  case NewPage
  with ok have "next_page_id s < INT32_MAX" by simp
  from NewPageImpl_inv [OF inv this] show ?thesis by (auto simp: bpm_step_def NewPage)
next
  case (DeletePage pid)
  from DeletePageImpl_inv [OF inv, of pid] show ?thesis by (auto simp: bpm_step_def DeletePage)
next
  case (FlushPage pid)
  from FlushPageImpl_inv [OF inv, of pid] show ?thesis by (auto simp: bpm_step_def FlushPage)
next
  case FlushAllPages
  from FlushAllPagesImpl_inv [OF inv] show ?thesis by (simp add: bpm_step_def FlushAllPages)
qed

lemma bpm_run_inv:
  assumes "bpm_inv s" "calls_in_range cs s"
  shows "\<exists>s'. bpm_run cs s = Inr s' \<and> bpm_inv s' \<and> length (pages s') = length (pages s) \<and>
           next_page_id s \<le> next_page_id s'"
  using assms
proof (induction cs arbitrary: s)
  case Nil
  then show ?case by simp
next
  case (Cons c cs)
  from Cons.prems have ok: "call_in_range c s" by simp
  from bpm_step_inv [OF Cons.prems(1) ok] obtain s1 where
    s1: "bpm_step c s = Inr s1" "bpm_inv s1" "length (pages s1) = length (pages s)"
        "next_page_id s \<le> next_page_id s1" by blast
  from Cons.prems(2) s1(1) have "calls_in_range cs s1" by simp
  from Cons.IH [OF s1(2) this] s1 show ?case by auto
qed

lemma new_BufferPoolManager_inv: "bpm_inv (new_BufferPoolManager n dm first_id)"
  by (simp add: bpm_inv_def new_BufferPoolManager_def new_LRUReplacer_def struct_inv_def
        new_Page_def)

lemma struct_inv_resident_iff:
  assumes "struct_inv pids pins pt free unpin nxt" "f < length pids"
  shows "f \<in> ran pt \<longleftrightarrow> pt (pids ! f) = Some f"
  using struct_invD(6) [OF assms(1)] by (auto simp: ran_def)

lemma struct_inv_exactly_one:
  assumes inv: "struct_inv pids pins pt free unpin nxt" and f: "f < length pids"
  shows "exactly_one (f \<in> ran pt \<and> 0 < pins ! f) (f \<in> ran pt \<and> f \<in> set unpin) (f \<in> set free)"
proof (cases "f \<in> set free")
  case True
  with struct_invD(4) [OF inv True] struct_inv_resident_iff [OF inv f]
  show ?thesis by (auto simp: exactly_one_def)
next
  case False
  with struct_invD(7) [OF inv f] have r: "pt (pids ! f) = Some f" by simp
  from struct_invD(6) [OF inv r] struct_invD(5) [OF inv, of f] False r
    struct_inv_resident_iff [OF inv f]
  show ?thesis by (auto simp: exactly_one_def)
qed

lemma struct_inv_card:
  assumes inv: "struct_inv pids pins pt free unpin nxt"
  shows "card (dom pt) + length free = length pids"
proof -
  note D = struct_invD [OF inv]
  define R where "R = {f. f < length pids \<and> pt (pids ! f) = Some f}"
  have fin: "finite R" by (simp add: R_def)
  have split: "{..<length pids} = R \<union> set free"
    using D(4) D(7) by (auto simp: R_def)
  have disj: "R \<inter> set free = {}"
    using D(4) by (auto simp: R_def)
  have "card {..<length pids} = card R + card (set free)"
    unfolding split using fin disj by (simp add: card_Un_disjoint)
  then have n: "length pids = card R + length free"
    using D(2) by (simp add: distinct_card)
  have dom: "dom pt = (\<lambda>f. pids ! f) ` R"
  proof
    show "dom pt \<subseteq> (\<lambda>f. pids ! f) ` R"
    proof
      fix p assume "p \<in> dom pt"
      then obtain f where pf: "pt p = Some f" by auto
      from D(6) [OF pf] pf have "f \<in> R" "pids ! f = p" by (auto simp: R_def)
      then show "p \<in> (\<lambda>f. pids ! f) ` R" by auto
    qed
    show "(\<lambda>f. pids ! f) ` R \<subseteq> dom pt" by (auto simp: R_def)
  qed
  have inj: "inj_on (\<lambda>f. pids ! f) R"
    by (rule inj_onI) (auto simp: R_def)
  have "card (dom pt) = card R" unfolding dom using inj by (rule card_image)
  with n show ?thesis by simp
qed


lemma Victim_Some_in_list: "Victim r = (Some f, r') \<Longrightarrow> f \<in> set (unpin_list r)"
  by (auto simp: Victim_def split: if_splits)

text \<open>
  C2 (amended): for every sequence of buffer-pool calls, starting from a fresh pool of
  \<open>n\<close> frames, that stays in range (\<open>FetchPage\<close> is only asked for page ids that
  have been allocated, ids below \<open>next_page_id_\<close>, and never for a page whose pin
  count has reached the largest 32-bit integer; \<open>NewPage\<close> is only called while
  \<open>next_page_id_\<close> is below the largest page id, so that no id is handed out twice),
  the sequence runs without error and afterwards every frame is in exactly one of the three states (resident and pinned,
  resident and in the replacer, free), the size of the page table plus the length of the
  free list is \<open>n\<close>, and a frame that \<open>Victim\<close> would return has no positive pin
  count.  Every prefix of such a sequence is such a sequence, so this holds after each
  call.
\<close>

theorem C2_pool_invariant:
  assumes "calls_in_range cs (new_BufferPoolManager n dm first_id)"
  shows "\<exists>s. bpm_run cs (new_BufferPoolManager n dm first_id) = Inr s \<and> pool_size s = n \<and>
           (\<forall>f<n. exactly_one (resident_pinned s f) (resident_in_replacer s f) (frame_free s f)) \<and>
           card (dom (page_table s)) + length (free_list s) = n \<and>
           (\<forall>f r. Victim (replacer s) = (Some f, r) \<longrightarrow> f < n \<and> \<not> 0 < pin_count (pages s ! f))"
proof -
  from bpm_run_inv [OF new_BufferPoolManager_inv assms] obtain s where
    s: "bpm_run cs (new_BufferPoolManager n dm first_id) = Inr s" "bpm_inv s"
       "length (pages s) = n"
    by (auto simp: new_BufferPoolManager_def)
  note S = bpm_invD(1) [OF s(2)]
  have one: "exactly_one (resident_pinned s f) (resident_in_replacer s f) (frame_free s f)"
    if "f < n" for f
    using struct_inv_exactly_one [OF S, of f] that s(3)
    by (simp add: resident_pinned_def resident_in_replacer_def frame_free_def frame_resident_def)
  have card: "card (dom (page_table s)) + length (free_list s) = n"
    using struct_inv_card [OF S] s(3) by simp
  have vic: "f < n \<and> \<not> 0 < pin_count (pages s ! f)" if "Victim (replacer s) = (Some f, r)" for f r
    using struct_invD(5) [OF S Victim_Some_in_list [OF that]] s(3) by auto
  from s(1,3) one card vic show ?thesis by (auto simp: pool_size_def)
qed

text \<open>
  C2, as stated, fails: on a fresh pool of two frames, \<open>FetchPage(0)\<close> followed by
  \<open>NewPage\<close> (which allocates page id 0 again) overwrites the page-table entry of
  page 0.  Frame 0 stays pinned but is neither resident nor free, and the page table
  and the free list together hold one frame, not two.
\<close>

theorem C2_counterexample:
  "\<exists>s. bpm_run [FetchPage 0, NewPage] (new_BufferPoolManager 2 blank_disk 0) = Inr s \<and>
       pool_size s = 2 \<and> card (dom (page_table s)) + length (free_list s) = 1 \<and>
       \<not> exactly_one (resident_pinned s 0) (resident_in_replacer s 0) (frame_free s 0)"
  by (simp add: bpm_step_def FetchPageImpl_def NewPageImpl_def InitNewPage_def AllocatePage_def
        INT32_MAX_def new_BufferPoolManager_def new_LRUReplacer_def new_Page_def ResetMemory_def Size_def
        ReadPage_def WritePage_def blank_disk_def pool_size_def numeral_2_eq_2 upt_rec
        exactly_one_def resident_pinned_def resident_in_replacer_def frame_free_def
        frame_resident_def)

lemma example_calls_in_range:
  "calls_in_range example_calls (new_BufferPoolManager 2 blank_disk 0)"
  by (simp add: example_calls_def bpm_step_def FetchPageImpl_def NewPageImpl_def InitNewPage_def
        AllocatePage_def INT32_MAX_def UnpinPageImpl_def DeletePageImpl_def FlushAllPagesImpl_def
        FlushAllPages_body_def Unpin_def Pin_def DeallocatePage_def Victim_def
        new_BufferPoolManager_def new_LRUReplacer_def new_Page_def ResetMemory_def Size_def
        ReadPage_def WritePage_def blank_disk_def pool_size_def numeral_2_eq_2 upt_rec Let_def
        INVALID_PAGE_ID_def)

theorem C2_pool_invariant_witness:
  "calls_in_range example_calls (new_BufferPoolManager 2 blank_disk 0) \<and>
   (\<exists>s. bpm_run example_calls (new_BufferPoolManager 2 blank_disk 0) = Inr s \<and>
        card (dom (page_table s)) + length (free_list s) = 2)"
  using C2_pool_invariant [OF example_calls_in_range] example_calls_in_range by blast

text \<open>
  C7: \<open>DeletePage\<close> of a page id that is not in the page table returns true and
  changes nothing; of a resident page with a positive pin count it returns false and
  changes nothing; of a resident page with pin count zero it returns true, erases the
  page-table entry, appends the frame to the free list and deallocates the page id (it
  also removes the frame from the replacer, writes the page back when dirty and resets
  the frame's metadata and data).  The page table is taken to point into the pool.
\<close>

theorem C7_DeletePage:
  fixes s :: "('d::zero) BufferPoolManager"
  shows
  "(page_table s pid = None \<longrightarrow> DeletePageImpl pid s = Inr (True, s)) \<and>
   (page_table s pid = Some f \<and> f < pool_size s \<and> pin_count (pages s ! f) > 0 \<longrightarrow>
      DeletePageImpl pid s = Inr (False, s)) \<and>
   (page_table s pid = Some f \<and> f < pool_size s \<and> pin_count (pages s ! f) = 0 \<longrightarrow>
      (\<exists>s'. DeletePageImpl pid s = Inr (True, s') \<and>
            page_table s' = (page_table s)(pid := None) \<and>
            free_list s' = free_list s @ [f] \<and>
            deallocated s' = deallocated s @ [pid] \<and>
            replacer s' = Pin f (replacer s) \<and>
            next_page_id s' = next_page_id s \<and>
            pages s' = (pages s)[f := (pages s ! f)\<lparr>is_dirty := False, data := 0,
                                        page_id := INVALID_PAGE_ID, pin_count := 0\<rparr>] \<and>
            disk_manager s' = (if is_dirty (pages s ! f)
                               then WritePage pid (data (pages s ! f)) (disk_manager s)
                               else disk_manager s)))"
  by (simp add: DeletePageImpl_def pool_size_def Let_def DeallocatePage_def ResetMemory_def)

theorem C7_DeletePage_witness:
  "DeletePageImpl 5 (example_pool 1 False) = Inr (True, example_pool 1 False) \<and>
   DeletePageImpl 0 (example_pool 1 False) = Inr (False, example_pool 1 False) \<and>
   (\<exists>s'. DeletePageImpl 0 (example_pool 0 False) = Inr (True, s') \<and>
         page_table s' 0 = None \<and> free_list s' = [0] \<and> deallocated s' = [0])"
  using C7_DeletePage [of "example_pool 1 False" 5 0]
        C7_DeletePage [of "example_pool 1 False" 0 0]
        C7_DeletePage [of "example_pool 0 False" 0 0]
  by (auto simp: example_pool_def pool_size_def)

lemma InitNewPage_shape:
  assumes "InitNewPage pid s = Inr (f, s')"
  shows "f < length (pages s') \<and> data (pages s' ! f) = 0 \<and> page_id (pages s' ! f) = pid \<and>
         pin_count (pages s' ! f) = 1 \<and> is_dirty (pages s' ! f) = False \<and>
         page_table s' pid = Some f \<and> next_page_id s' = next_page_id s \<and>
         disk_manager s' =
           (if free_list s = [] \<and> is_dirty (pages s ! f)
            then WritePage (page_id (pages s ! f)) (data (pages s ! f)) (disk_manager s)
            else disk_manager s)"
  using assms
  by (auto simp: InitNewPage_def Let_def ResetMemory_def Victim_def
           split: if_splits sum.splits prod.splits option.splits)

text \<open>
  C9: every successful \<open>NewPage\<close> returns the page id that was next to be allocated
  and ends with a disk write of that page id with the zeroed buffer (4096 zero bytes),
  after the write-back of the victim when the frame came from the replacer and was
  dirty; the disk then holds the zeroed page under the new id.
\<close>

theorem C9_NewPage_writes_zero_page:
  fixes s :: "page_bytes BufferPoolManager"
  assumes "NewPageImpl s = Inr (Some (pid, f), s')"
  shows "pid = next_page_id s \<and>
         (\<exists>ws. disk_writes (disk_manager s') = disk_writes (disk_manager s) @ ws @ [(pid, 0)] \<and>
               ws = (if free_list s = [] \<and> is_dirty (pages s ! f)
                     then [(page_id (pages s ! f), data (pages s ! f))] else [])) \<and>
         ReadPage pid (disk_manager s') = 0 \<and>
         Rep_page_bytes 0 = replicate 4096 0"
  using assms
  apply (simp add: NewPageImpl_def AllocatePage_def split: if_splits sum.splits prod.splits)
  apply (auto dest!: InitNewPage_shape simp: WritePage_def ReadPage_def zero_page_bytes.rep_eq PAGE_SIZE_def)
  done

lemma NewPageImpl_example:
  "NewPageImpl (example_pool 0 True) =
     Inr (Some (1, 0),
          \<lparr>pages = [\<lparr>data = 0, page_id = 1, pin_count = 1, is_dirty = False,
                     latch = \<lparr>readers = 0, writer = False\<rparr>\<rparr>],
           page_table = [1 \<mapsto> 0], free_list = [],
           replacer = \<lparr>max_num_pages = 1, unpin_list = []\<rparr>,
           disk_manager = \<lparr>disk_contents = (\<lambda>_. 0), disk_writes = [(0, 0), (1, 0)]\<rparr>,
           next_page_id = 2, deallocated = []\<rparr>)"
  by (simp add: NewPageImpl_def AllocatePage_def INT32_MAX_def InitNewPage_def Victim_def example_pool_def
        Size_def ResetMemory_def WritePage_def blank_disk_def fun_upd_idem)

theorem C9_NewPage_writes_zero_page_witness:
  "\<exists>s'. NewPageImpl (example_pool 0 True) = Inr (Some (1, 0), s') \<and>
        disk_writes (disk_manager s') = [(0, 0), (1, 0)] \<and>
        ReadPage 1 (disk_manager s') = 0"
  using C9_NewPage_writes_zero_page [OF NewPageImpl_example] NewPageImpl_example
  by (simp add: ReadPage_def)

section \<open>Theorems: page contents across eviction\<close>













section \<open>Theorems: iterator, crabbing and pins\<close>

text \<open>
  C10: for an iterator at the end of the last leaf (\<open>isEnd\<close> holds: the index equals
  the leaf's size and the leaf has no next page), \<open>operator++\<close> adds one to the index
  and leaves the leaf pointer and the buffer pool as they were (no page is fetched);
  afterwards \<open>isEnd\<close> is false and the index, size + 1, is outside the valid range
  \<open>0 .. size - 1\<close> of the leaf's entries.
\<close>

theorem C10_increment_at_end:
  assumes "isEnd it b"
  shows "increment it b = Inr (it\<lparr>current_index := current_index it + 1\<rparr>, b) \<and>
         \<not> isEnd (it\<lparr>current_index := current_index it + 1\<rparr>) b \<and>
         current_index (it\<lparr>current_index := current_index it + 1\<rparr>) =
           GetSize (node_at b (lp it)) + 1 \<and>
         \<not> (0 \<le> current_index (it\<lparr>current_index := current_index it + 1\<rparr>) \<and>
            current_index (it\<lparr>current_index := current_index it + 1\<rparr>) < GetSize (node_at b (lp it)))"
  using assms by (simp add: isEnd_def increment_def Let_def)

theorem C10_increment_at_end_witness:
  "isEnd \<lparr>lp = 0, current_index = 2\<rparr> example_leaf_pool \<and>
   increment \<lparr>lp = 0, current_index = 2\<rparr> example_leaf_pool =
     Inr (\<lparr>lp = 0, current_index = 3\<rparr>, example_leaf_pool) \<and>
   \<not> isEnd \<lparr>lp = 0, current_index = 3\<rparr> example_leaf_pool \<and>
   GetItem \<lparr>lp = 0, current_index = 3\<rparr> example_leaf_pool = Inl UndefinedBehaviour"
proof -
  have e: "isEnd \<lparr>lp = 0, current_index = 2\<rparr> example_leaf_pool"
    by (simp add: isEnd_def node_at_def example_leaf_pool_def example_leaf_def)
  have g: "GetItem \<lparr>lp = 0, current_index = 3\<rparr> example_leaf_pool = Inl UndefinedBehaviour"
    by (simp add: GetItem_def entry_at_def node_at_def example_leaf_pool_def example_leaf_def)
  from C10_increment_at_end [OF e] e g show ?thesis by simp
qed







text \<open>
  C1 fails on the code: on an empty tree \<open>GetValue\<close> fetches the guard page, latches
  it, finds the tree empty, releases the latch and returns false without unpinning:
  the pin count of the guard page is one higher than before the call.
\<close>

theorem C1_GetValue_empty_tree_keeps_guard_pinned:
  assumes "IsEmpty t" and "page_table (bpm t) (guard_page_id t) = Some g"
    and "g < length (pages (bpm t))" and "\<not> writer (latch (pages (bpm t) ! g))"
  shows "\<exists>t'. GetValue fuel key t txn = Some (Inr ((False, None), t', txn)) \<and>
           pin_count (pages (bpm t') ! g) = pin_count (pages (bpm t) ! g) + 1 \<and>
           latch (pages (bpm t') ! g) = latch (pages (bpm t) ! g)"
  using assms
  by (simp add: GetValue_def bpm_fetch_def FetchPageImpl_def ebind_def Let_def RLatch_def
        RUnlatch_def update_latch_def)

theorem C1_GetValue_empty_tree_keeps_guard_pinned_witness:
  "IsEmpty example_empty_tree \<and> pin_count (pages (bpm example_empty_tree) ! 0) = 0 \<and>
   (\<exists>t'. GetValue 0 5 example_empty_tree \<lparr>page_set = [], deleted_page_set = []\<rparr> =
            Some (Inr ((False, None), t', \<lparr>page_set = [], deleted_page_set = []\<rparr>)) \<and>
         pin_count (pages (bpm t') ! 0) = 1)"
proof -
  have h: "IsEmpty example_empty_tree"
    "page_table (bpm example_empty_tree) (guard_page_id example_empty_tree) = Some 0"
    "0 < length (pages (bpm example_empty_tree))"
    "\<not> writer (latch (pages (bpm example_empty_tree) ! 0))"
    "pin_count (pages (bpm example_empty_tree) ! 0) = 0"
    by (simp_all add: IsEmpty_def example_empty_tree_def)
  from C1_GetValue_empty_tree_keeps_guard_pinned [OF h(1-4), of 0 5 "\<lparr>page_set = [], deleted_page_set = []\<rparr>"] h
  show ?thesis by auto
qed

section \<open>Theorems: the pool as a memory of pages\<close>









lemma pool_ok_facts:
  assumes "pool_ok b"
  shows "\<And>q f. page_table b q = Some f \<Longrightarrow>
           f < length (pages b) \<and> page_id (pages b ! f) = q \<and> 0 \<le> pin_count (pages b ! f)"
    and "\<And>f q. f \<in> set (free_list b) \<Longrightarrow> f < length (pages b) \<and> page_table b q \<noteq> Some f"
    and "\<And>f. f \<in> set (unpin_list (replacer b)) \<Longrightarrow>
           f < length (pages b) \<and> page_table b (page_id (pages b ! f)) = Some f \<and>
           pin_count (pages b ! f) = 0"
proof -
  from assms obtain n where
    S: "struct_inv (map page_id (pages b)) (map pin_count (pages b)) (page_table b)
          (free_list b) (unpin_list (replacer b)) n"
    unfolding pool_ok_def by blast
  show A: "f < length (pages b) \<and> page_id (pages b ! f) = q \<and> 0 \<le> pin_count (pages b ! f)"
    if "page_table b q = Some f" for q f
    using struct_invD(6) [OF S that] by auto
  show "f < length (pages b) \<and> page_table b q \<noteq> Some f" if "f \<in> set (free_list b)" for f q
  proof -
    from struct_invD(4) [OF S that] have f: "f < length (pages b)"
      "page_table b (page_id (pages b ! f)) \<noteq> Some f" by auto
    show ?thesis
    proof (cases "page_table b q = Some f")
      case True
      from A [OF True] f(2) True show ?thesis by simp
    next
      case False
      with f show ?thesis by simp
    qed
  qed
  show "f < length (pages b) \<and> page_table b (page_id (pages b ! f)) = Some f \<and>
           pin_count (pages b ! f) = 0" if "f \<in> set (unpin_list (replacer b))" for f
    using struct_invD(5) [OF S that] by auto
qed


lemma mem_Some: "page_table b p = Some f \<Longrightarrow> mem b p = data (pages b ! f)"
  by (simp add: mem_def)

lemma mem_None: "page_table b p = None \<Longrightarrow> mem b p = ReadPage p (disk_manager b)"
  by (simp add: mem_def)
















lemma update_latch_next:
  "(update_latch f g b)\<lparr>next_page_id := n\<rparr> = update_latch f g (b\<lparr>next_page_id := n\<rparr>)"
  by (simp add: update_latch_def)

lemma update_latch_any:
  "\<exists>l. pages (update_latch f g b) ! k = (pages b ! k)\<lparr>latch := l\<rparr>"
proof (cases "f < length (pages b) \<and> k = f")
  case True
  then have "pages (update_latch f g b) ! k = (pages b ! k)\<lparr>latch := g (latch (pages b ! k))\<rparr>"
    by (simp add: update_latch_def)
  then show ?thesis ..
next
  case False
  then have "pages (update_latch f g b) ! k = pages b ! k"
    by (cases "f < length (pages b)") (auto simp: update_latch_def list_update_beyond)
  then have "pages (update_latch f g b) ! k = (pages b ! k)\<lparr>latch := latch (pages b ! k)\<rparr>"
    by simp
  then show ?thesis ..
qed

lemma update_latch_fields:
  "data (pages (update_latch f g b) ! k) = data (pages b ! k)"
  "pin_count (pages (update_latch f g b) ! k) = pin_count (pages b ! k)"
  "is_dirty (pages (update_latch f g b) ! k) = is_dirty (pages b ! k)"
  "page_id (pages (update_latch f g b) ! k) = page_id (pages b ! k)"
proof -
  from update_latch_any [of f g b k] obtain l where
    l: "pages (update_latch f g b) ! k = (pages b ! k)\<lparr>latch := l\<rparr>" ..
  show "data (pages (update_latch f g b) ! k) = data (pages b ! k)" by (simp add: l)
  show "pin_count (pages (update_latch f g b) ! k) = pin_count (pages b ! k)" by (simp add: l)
  show "is_dirty (pages (update_latch f g b) ! k) = is_dirty (pages b ! k)" by (simp add: l)
  show "page_id (pages (update_latch f g b) ! k) = page_id (pages b ! k)" by (simp add: l)
qed


lemma update_latch_node: "node_at (update_latch f g b) k = node_at b k"
  by (simp add: node_at_def update_latch_fields)













lemma held_distinct:
  assumes "pool_ok b" "held b p f" "held b q g" "p \<noteq> q"
  shows "f \<noteq> g"
  using pool_ok_facts(1) [OF assms(1), of p f] pool_ok_facts(1) [OF assms(1), of q g] assms(2-4)
  unfolding held_def by fastforce





lemma GetMinSize_cong: "GetMaxSize x = GetMaxSize y \<Longrightarrow> GetMinSize x = GetMinSize y"
  by (simp add: GetMinSize_def)


section \<open>Theorems: the round trip of a page through the disk\<close>

















section \<open>Theorems: the descent with latch crabbing\<close>




lemma only_heldD:
  assumes "only_held op b ps"
  shows "distinct ps"
    and "\<And>f. f \<in> set ps \<Longrightarrow> f < length (pages b) \<and>
            page_table b (page_id (pages b ! f)) = Some f \<and> pin_count (pages b ! f) = 1 \<and>
            latch (pages b ! f) = (if op = READ then \<lparr>readers = 1, writer = False\<rparr>
                                   else \<lparr>readers = 0, writer = True\<rparr>)"
    and "\<And>f. f < length (pages b) \<Longrightarrow> f \<notin> set ps \<Longrightarrow>
            pin_count (pages b ! f) = 0 \<and> latch (pages b ! f) = \<lparr>readers = 0, writer = False\<rparr>"
  using assms unfolding only_held_def by blast+


lemma only_held_frame_held: "only_held op b ps \<Longrightarrow> f \<in> set ps \<Longrightarrow> frame_held op b f"
  using only_heldD(2) [of op b ps f] by (auto simp: frame_held_def latch_held_def)



































end
